theory Spec2Isabelle
  imports Complex_Main "HOL-Library.Log_Nat"
begin

section \<open>Python values\<close>

text \<open>
  The parser works on decoded JSON: \<^verbatim>\<open>None\<close>, booleans, unbounded integers, floats,
  strings, lists and dictionaries with string keys. A float is the rational it denotes, or
  one of the three special values. A character of a string is its code point, below 256.
  A dictionary is an association list in insertion order; \<^verbatim>\<open>d.get(k, default)\<close> is
  \<open>dict_get\<close>.
\<close>

datatype pyfloat = Finite rat | PosInf | NegInf | NaN

datatype pyval =
    PNone
  | PBool bool
  | PInt int
  | PFloat pyfloat
  | PStr string
  | PList "pyval list"
  | PDict "(string \<times> pyval) list"
  | PDatetime int nat

datatype exn =
    AttributeError
  | TypeError
  | ValueError
  | OverflowError
  | RecursionError
  | Failure string

definition dict_get :: "(string \<times> pyval) list \<Rightarrow> string \<Rightarrow> pyval \<Rightarrow> pyval" where
  "dict_get d k dflt = (case map_of d k of Some v \<Rightarrow> v | None \<Rightarrow> dflt)"

text \<open>\<^verbatim>\<open>isinstance(v, (int, float))\<close>: \<^verbatim>\<open>bool\<close> is a subclass of \<^verbatim>\<open>int\<close>.\<close>

fun is_int_or_float :: "pyval \<Rightarrow> bool" where
  "is_int_or_float (PBool b) = True"
| "is_int_or_float (PInt n) = True"
| "is_int_or_float (PFloat x) = True"
| "is_int_or_float v = False"

text \<open>Truthiness, as \<^verbatim>\<open>not v\<close> and \<^verbatim>\<open>if v:\<close> test it.\<close>

fun truthy :: "pyval \<Rightarrow> bool" where
  "truthy PNone = False"
| "truthy (PBool b) = b"
| "truthy (PInt n) = (n \<noteq> 0)"
| "truthy (PFloat x) = (x \<noteq> Finite 0)"
| "truthy (PStr s) = (s \<noteq> [])"
| "truthy (PList xs) = (xs \<noteq> [])"
| "truthy (PDict d) = (d \<noteq> [])"
| "truthy (PDatetime d t) = True"

subsection \<open>Conversion of integers to floats\<close>

text \<open>
  \<^verbatim>\<open>float(n)\<close> for an integer rounds to 53 significant bits, ties to even, and raises
  \<^verbatim>\<open>OverflowError\<close> when the rounded magnitude reaches \<open>2 ^ 1024\<close>.
\<close>

definition round53 :: "int \<Rightarrow> int" where
  "round53 n =
     (let a = \<bar>n\<bar> in
      if a < 2 ^ 53 then n
      else
        let e = nat (bitlen a - 53);
            q = a div 2 ^ e;
            r = a mod 2 ^ e;
            h = 2 ^ (e - 1);
            q' = (if h < r \<or> (r = h \<and> odd q) then q + 1 else q)
        in sgn n * (q' * 2 ^ e))"

definition float_of_int :: "int \<Rightarrow> exn + pyfloat" where
  "float_of_int n =
     (if 2 ^ 1024 - 2 ^ 970 \<le> \<bar>n\<bar> then Inl OverflowError
      else Inr (Finite (of_int (round53 n))))"

text \<open>\<^verbatim>\<open>float(v)\<close> for a value that passed \<^verbatim>\<open>isinstance(v, (int, float))\<close>.\<close>

fun float_of_number :: "pyval \<Rightarrow> exn + pyfloat" where
  "float_of_number (PBool b) = float_of_int (if b then 1 else 0)"
| "float_of_number (PInt n) = float_of_int n"
| "float_of_number (PFloat x) = Inr x"
| "float_of_number v = Inl TypeError"

section \<open>Scalar coercions of the parser\<close>

subsection \<open>\<^verbatim>\<open>_parse_boolean\<close>\<close>

text \<open>
  \<^verbatim>\<open>s.lower()\<close>: below 256 the characters with a lower case of their own are the letters
  \<^verbatim>\<open>A\<close> to \<^verbatim>\<open>Z\<close> and the codes 192 to 222 but 215; the lower case is 32 further.
\<close>

definition lower_char :: "char \<Rightarrow> char" where
  "lower_char c =
     (let n = (of_char c :: nat)
      in if (65 \<le> n \<and> n \<le> 90) \<or> (192 \<le> n \<and> n \<le> 222 \<and> n \<noteq> 215) then char_of (n + 32) else c)"

definition str_lower :: "string \<Rightarrow> string" where
  "str_lower s = map lower_char s"

fun parse_boolean :: "pyval \<Rightarrow> bool" where
  "parse_boolean (PBool b) = b"
| "parse_boolean (PStr s) = (str_lower s = ''true'')"
| "parse_boolean v = False"

subsection \<open>\<^verbatim>\<open>_safe_get\<close>\<close>

definition safe_get :: "(string \<times> pyval) list \<Rightarrow> string \<Rightarrow> pyval \<Rightarrow> pyval" where
  "safe_get data key dflt =
     (let v = dict_get data key dflt in if v = PDict [] then PNone else v)"

subsection \<open>\<^verbatim>\<open>_extract_numeric_value\<close>\<close>

text \<open>
  \<^verbatim>\<open>float(s)\<close> for a string is Python's parser of float literals; it is a parameter
  \<open>parse_float\<close> of the model, \<open>None\<close> standing for the \<^verbatim>\<open>ValueError\<close> that the source
  catches. The result \<open>Inr None\<close> is a returned \<^verbatim>\<open>None\<close>; \<open>Inl e\<close> is an exception
  that leaves the function.
\<close>

fun first_numeric :: "(string \<times> pyval) list \<Rightarrow> string list \<Rightarrow> exn + pyfloat option" where
  "first_numeric d [] = Inr None"
| "first_numeric d (key # keys) =
     (case map_of d key of
        Some v \<Rightarrow>
          (if is_int_or_float v then
             (case float_of_number v of Inl e \<Rightarrow> Inl e | Inr x \<Rightarrow> Inr (Some x))
           else first_numeric d keys)
      | None \<Rightarrow> first_numeric d keys)"

definition numeric_keys :: "string list" where
  "numeric_keys = [''sum'', ''value'', ''amount'', ''price'', ''average'']"

fun extract_numeric_value :: "(string \<Rightarrow> pyfloat option) \<Rightarrow> pyval \<Rightarrow> exn + pyfloat option" where
  "extract_numeric_value parse_float (PDict d) = first_numeric d numeric_keys"
| "extract_numeric_value parse_float (PStr s) = Inr (parse_float s)"
| "extract_numeric_value parse_float v =
     (if is_int_or_float v then
        (case float_of_number v of Inl e \<Rightarrow> Inl e | Inr x \<Rightarrow> Inr (Some x))
      else Inr None)"

subsection \<open>\<^verbatim>\<open>_extract_fiscal_cheque_number\<close>\<close>

text \<open>
  \<^verbatim>\<open>str(n)\<close> of an integer is its decimal numeral. \<^verbatim>\<open>str\<close> of a string is the string
  itself; for the remaining values (a float with a fractional part, a container, ...) it
  is Python's \<^verbatim>\<open>repr\<close>, a parameter \<open>py_repr\<close> of the model.
  \<^verbatim>\<open>s.strip()\<close> removes the leading and trailing whitespace characters: below 256 these
  are the codes 9 to 13, 28 to 32, 133 (next line) and 160 (no-break space).
  Of \<^verbatim>\<open>list\<close>, \<^verbatim>\<open>tuple\<close> and \<^verbatim>\<open>set\<close> only the list occurs among the values.
\<close>

definition digit_char :: "nat \<Rightarrow> char" where
  "digit_char n = ''0123456789'' ! n"

fun digits_of :: "nat \<Rightarrow> string" where
  "digits_of n = (if n < 10 then [digit_char n] else digits_of (n div 10) @ [digit_char (n mod 10)])"

declare digits_of.simps [simp del]

definition str_of_int :: "int \<Rightarrow> string" where
  "str_of_int n = (if n < 0 then CHR ''-'' # digits_of (nat (- n)) else digits_of (nat n))"

definition str_of :: "(pyval \<Rightarrow> string) \<Rightarrow> pyval \<Rightarrow> string" where
  "str_of py_repr v = (case v of PStr s \<Rightarrow> s | _ \<Rightarrow> py_repr v)"

definition is_space :: "char \<Rightarrow> bool" where
  "is_space c =
     (let n = (of_char c :: nat)
      in (9 \<le> n \<and> n \<le> 13) \<or> (28 \<le> n \<and> n \<le> 32) \<or> n = 133 \<or> n = 160)"

definition strip :: "string \<Rightarrow> string" where
  "strip s = rev (dropWhile is_space (rev (dropWhile is_space s)))"

fun join :: "string \<Rightarrow> string list \<Rightarrow> string" where
  "join sep [] = []"
| "join sep [x] = x"
| "join sep (x # y # ys) = x @ sep @ join sep (y # ys)"

fun float_is_integer :: "pyfloat \<Rightarrow> bool" where
  "float_is_integer (Finite r) = (of_int \<lfloor>r\<rfloor> = r)"
| "float_is_integer x = False"

text \<open>\<^verbatim>\<open>int(v)\<close> for a number whose float is integral.\<close>

fun int_of_number :: "pyval \<Rightarrow> int" where
  "int_of_number (PBool b) = (if b then 1 else 0)"
| "int_of_number (PInt n) = n"
| "int_of_number (PFloat (Finite r)) = \<lfloor>r\<rfloor>"
| "int_of_number v = 0"

text \<open>
  The rule for a number, written twice in the source (for the value and for an element):
  \<^verbatim>\<open>str(int(v)) if float(v).is_integer() else str(v)\<close>.
\<close>

definition str_of_number :: "(pyval \<Rightarrow> string) \<Rightarrow> pyval \<Rightarrow> exn + string" where
  "str_of_number py_repr v =
     (case float_of_number v of
        Inl e \<Rightarrow> Inl e
      | Inr x \<Rightarrow> Inr (if float_is_integer x then str_of_int (int_of_number v) else str_of py_repr v))"

fun fiscal_items :: "(pyval \<Rightarrow> string) \<Rightarrow> pyval list \<Rightarrow> string list \<Rightarrow> exn + string list" where
  "fiscal_items py_repr [] cleaned = Inr cleaned"
| "fiscal_items py_repr (item # items) cleaned =
     (if item = PNone then fiscal_items py_repr items cleaned
      else if is_int_or_float item then
        (case str_of_number py_repr item of
           Inl e \<Rightarrow> Inl e
         | Inr s \<Rightarrow> fiscal_items py_repr items (cleaned @ [s]))
      else fiscal_items py_repr items (cleaned @ [strip (str_of py_repr item)]))"

definition extract_fiscal_cheque_number :: "(pyval \<Rightarrow> string) \<Rightarrow> pyval \<Rightarrow> exn + string option" where
  "extract_fiscal_cheque_number py_repr v =
     (if v = PNone then Inr None
      else if is_int_or_float v then
        (case str_of_number py_repr v of Inl e \<Rightarrow> Inl e | Inr s \<Rightarrow> Inr (Some s))
      else
        (case v of
           PStr s \<Rightarrow> Inr (Some (strip s))
         | PList xs \<Rightarrow>
             (case fiscal_items py_repr xs [] of
                Inl e \<Rightarrow> Inl e
              | Inr cleaned \<Rightarrow> Inr (if cleaned = [] then None else Some (join '', '' cleaned)))
         | _ \<Rightarrow> Inr (Some (strip (str_of py_repr v)))))"

section \<open>Flattening of the modifier tree\<close>






section \<open>Normalization entry points\<close>

subsection \<open>The clock and the log\<close>

text \<open>
  The entry points run in a world that they can read and change: the clock, which
  \<^verbatim>\<open>datetime.now()\<close> reads, and the log, to which \<^verbatim>\<open>logger.info\<close> adds a line.
  \<open>readings w k\<close> is what the \<open>k\<close>-th reading of the clock returns and \<open>ticks w\<close>
  counts the readings taken so far. A line of the log is the message with the number of
  records that it reports.
\<close>

datatype log_line = Parsed_organizations nat | Parsed_transactions nat

record world =
  readings :: "nat \<Rightarrow> pyval"
  ticks :: nat
  logged :: "log_line list"

definition datetime_now :: "world \<Rightarrow> pyval \<times> world" where
  "datetime_now w = (readings w (ticks w), w\<lparr>ticks := ticks w + 1\<rparr>)"

definition logger_info :: "log_line \<Rightarrow> world \<Rightarrow> world" where
  "logger_info line w = w\<lparr>logged := logged w @ [line]\<rparr>"

subsection \<open>\<^verbatim>\<open>parse_organizations\<close>\<close>

text \<open>Every parsed organization is stamped with \<^verbatim>\<open>datetime.now()\<close>, twice.\<close>

definition parsed_org :: "(string \<times> pyval) list \<Rightarrow> pyval \<Rightarrow> pyval \<Rightarrow> pyval" where
  "parsed_org org created_at updated_at =
     PDict
      [(''iiko_id'', dict_get org ''id'' PNone),
       (''name'', dict_get org ''name'' PNone),
       (''code'', dict_get org ''code'' (PStr [])),
       (''is_active'', PBool True),
       (''created_at'', created_at),
       (''updated_at'', updated_at)]"

fun parse_organizations_loop :: "pyval list \<Rightarrow> pyval list \<Rightarrow> world \<Rightarrow> (exn + pyval list) \<times> world" where
  "parse_organizations_loop [] parsed_orgs w = (Inr parsed_orgs, w)"
| "parse_organizations_loop (org # orgs) parsed_orgs w =
     (case org of
        PDict d \<Rightarrow>
          (let (created_at, w1) = datetime_now w;
               (updated_at, w2) = datetime_now w1
           in parse_organizations_loop orgs (parsed_orgs @ [parsed_org d created_at updated_at]) w2)
      | _ \<Rightarrow> (Inl AttributeError, w))"

definition parse_organizations :: "pyval \<Rightarrow> world \<Rightarrow> (exn + pyval list) \<times> world" where
  "parse_organizations data w =
     (if \<not> truthy data then (Inr [], w)
      else
        (case data of
           PList orgs \<Rightarrow>
             (case parse_organizations_loop orgs [] w of
                (Inl e, w') \<Rightarrow> (Inl e, w')
              | (Inr parsed_orgs, w') \<Rightarrow>
                  (Inr parsed_orgs, logger_info (Parsed_organizations (length parsed_orgs)) w'))
         | PDict _ \<Rightarrow> (Inl AttributeError, w)
         | PStr _ \<Rightarrow> (Inl AttributeError, w)
         | _ \<Rightarrow> (Inl TypeError, w)))"

subsection \<open>\<^verbatim>\<open>parse_transactions\<close>\<close>

text \<open>
  The parsed transaction is a dictionary literal of 114 entries, each of one of three
  shapes: \<^verbatim>\<open>transaction.get(key)\<close>, \<^verbatim>\<open>_safe_get(transaction, key)\<close> and
  \<^verbatim>\<open>_extract_numeric_value(transaction.get(key))\<close>. The table lists them in the order of
  the source: target field, shape, vendor key.
\<close>

datatype rule = Get | SafeGet | Numeric

definition transaction_fields :: "(string \<times> rule \<times> string) list" where
  "transaction_fields =
    [(''iiko_id'', SafeGet, ''Id''),
     (''order_id'', SafeGet, ''OrderId''),
     (''order_num'', Get, ''OrderNum''),
     (''document'', Get, ''Document''),
     (''amount'', Get, ''Amount''),
     (''sum_resigned'', Numeric, ''Sum.ResignedSum''),
     (''sum_incoming'', Numeric, ''Sum.Incoming''),
     (''sum_outgoing'', Numeric, ''Sum.Outgoing''),
     (''sum_part_of_income'', Numeric, ''Sum.PartOfIncome''),
     (''sum_part_of_total_income'', Numeric, ''Sum.PartOfTotalIncome''),
     (''start_balance_money'', Numeric, ''StartBalance.Money''),
     (''final_balance_money'', Numeric, ''FinalBalance.Money''),
     (''start_balance_amount'', Numeric, ''StartBalance.Amount''),
     (''final_balance_amount'', Numeric, ''FinalBalance.Amount''),
     (''amount_in'', Numeric, ''Amount.In''),
     (''amount_out'', Numeric, ''Amount.Out''),
     (''contr_amount'', Get, ''Contr-Amount''),
     (''transaction_type'', Get, ''TransactionType''),
     (''transaction_type_code'', SafeGet, ''TransactionType.Code''),
     (''transaction_side'', Get, ''TransactionSide''),
     (''product_id'', SafeGet, ''Product.Id''),
     (''product_name'', Get, ''Product.Name''),
     (''product_num'', Get, ''Product.Num''),
     (''product_category_id'', SafeGet, ''Product.Category.Id''),
     (''product_category'', Get, ''Product.Category''),
     (''product_type'', Get, ''Product.Type''),
     (''product_measure_unit'', Get, ''Product.MeasureUnit''),
     (''product_avg_sum'', Numeric, ''Product.AvgSum''),
     (''product_cooking_place_type'', Get, ''Product.CookingPlaceType''),
     (''product_accounting_category'', Get, ''Product.AccountingCategory''),
     (''product_top_parent'', Get, ''Product.TopParent''),
     (''product_second_parent'', Get, ''Product.SecondParent''),
     (''product_third_parent'', Get, ''Product.ThirdParent''),
     (''product_hierarchy'', Get, ''Product.Hierarchy''),
     (''product_tag_id'', SafeGet, ''Product.Tag.Id''),
     (''product_tag_name'', Get, ''Product.Tag.Name''),
     (''product_tags_ids_combo'', Get, ''Product.Tags.IdsCombo''),
     (''product_tags_names_combo'', Get, ''Product.Tags.NamesCombo''),
     (''product_alcohol_class'', Get, ''Product.AlcoholClass''),
     (''product_alcohol_class_code'', SafeGet, ''Product.AlcoholClass.Code''),
     (''product_alcohol_class_group'', Get, ''Product.AlcoholClass.Group''),
     (''product_alcohol_class_type'', Get, ''Product.AlcoholClass.Type''),
     (''contr_product_id'', SafeGet, ''Contr-Product.Id''),
     (''contr_product_name'', Get, ''Contr-Product.Name''),
     (''contr_product_num'', Get, ''Contr-Product.Num''),
     (''contr_product_category_id'', SafeGet, ''Contr-Product.Category.Id''),
     (''contr_product_category'', Get, ''Contr-Product.Category''),
     (''contr_product_type'', Get, ''Contr-Product.Type''),
     (''contr_product_measure_unit'', Get, ''Contr-Product.MeasureUnit''),
     (''contr_product_accounting_category'', Get, ''Contr-Product.AccountingCategory''),
     (''contr_product_top_parent'', Get, ''Contr-Product.TopParent''),
     (''contr_product_second_parent'', Get, ''Contr-Product.SecondParent''),
     (''contr_product_third_parent'', Get, ''Contr-Product.ThirdParent''),
     (''contr_product_hierarchy'', Get, ''Contr-Product.Hierarchy''),
     (''contr_product_tags_ids_combo'', Get, ''Contr-Product.Tags.IdsCombo''),
     (''contr_product_tags_names_combo'', Get, ''Contr-Product.Tags.NamesCombo''),
     (''contr_product_alcohol_class'', Get, ''Contr-Product.AlcoholClass''),
     (''contr_product_alcohol_class_code'', SafeGet, ''Contr-Product.AlcoholClass.Code''),
     (''contr_product_alcohol_class_group'', Get, ''Contr-Product.AlcoholClass.Group''),
     (''contr_product_alcohol_class_type'', Get, ''Contr-Product.AlcoholClass.Type''),
     (''contr_product_cooking_place_type'', Get, ''Contr-Product.CookingPlaceType''),
     (''account_id'', SafeGet, ''Account.Id''),
     (''account_name'', Get, ''Account.Name''),
     (''account_code'', SafeGet, ''Account.Code''),
     (''account_type'', Get, ''Account.Type''),
     (''account_group'', Get, ''Account.Group''),
     (''account_store_or_account'', Get, ''Account.StoreOrAccount''),
     (''account_counteragent_type'', Get, ''Account.CounteragentType''),
     (''account_is_cash_flow_account'', Get, ''Account.IsCashFlowAccount''),
     (''account_hierarchy_top'', Get, ''Account.AccountHierarchyTop''),
     (''account_hierarchy_second'', Get, ''Account.AccountHierarchySecond''),
     (''account_hierarchy_third'', Get, ''Account.AccountHierarchyThird''),
     (''account_hierarchy_full'', Get, ''Account.AccountHierarchyFull''),
     (''contr_account_name'', Get, ''Contr-Account.Name''),
     (''contr_account_code'', SafeGet, ''Contr-Account.Code''),
     (''contr_account_type'', Get, ''Contr-Account.Type''),
     (''contr_account_group'', Get, ''Contr-Account.Group''),
     (''counteragent_id'', SafeGet, ''Counteragent.Id''),
     (''counteragent_name'', Get, ''Counteragent.Name''),
     (''department'', Get, ''Department''),
     (''department_code'', Get, ''Department.Code''),
     (''department_jur_person'', Get, ''Department.JurPerson''),
     (''department_category1'', Get, ''Department.Category1''),
     (''department_category2'', Get, ''Department.Category2''),
     (''department_category3'', Get, ''Department.Category3''),
     (''department_category4'', Get, ''Department.Category4''),
     (''department_category5'', Get, ''Department.Category5''),
     (''session_group_id'', SafeGet, ''Session.GroupId''),
     (''session_group'', Get, ''Session.Group''),
     (''session_cash_register'', Get, ''Session.CashRegister''),
     (''session_restaurant_section'', Get, ''Session.RestaurantSection''),
     (''conception'', Get, ''Conception''),
     (''conception_code'', SafeGet, ''Conception.Code''),
     (''store'', Get, ''Store''),
     (''cash_flow_category'', Get, ''CashFlowCategory''),
     (''cash_flow_category_type'', Get, ''CashFlowCategory.Type''),
     (''cash_flow_category_hierarchy'', Get, ''CashFlowCategory.Hierarchy''),
     (''cash_flow_category_hierarchy_level1'', Get, ''CashFlowCategory.HierarchyLevel1''),
     (''cash_flow_category_hierarchy_level2'', Get, ''CashFlowCategory.HierarchyLevel2''),
     (''cash_flow_category_hierarchy_level3'', Get, ''CashFlowCategory.HierarchyLevel3''),
     (''date_time'', Get, ''DateTime.Typed''),
     (''date_time_typed'', Get, ''DateTime.Typed''),
     (''date_typed'', Get, ''DateTime.DateTyped''),
     (''date_secondary_date_time_typed'', Get, ''DateSecondary.DateTimeTyped''),
     (''date_secondary_date_typed'', Get, ''DateSecondary.DateTyped''),
     (''date_time_year'', Get, ''DateTime.Year''),
     (''date_time_quarter'', Get, ''DateTime.Quarter''),
     (''date_time_month'', Get, ''DateTime.Month''),
     (''date_time_week_in_year'', Get, ''DateTime.WeekInYear''),
     (''date_time_week_in_month'', Get, ''DateTime.WeekInMonth''),
     (''date_time_day_of_week'', Get, ''DateTime.DayOfWeak''),
     (''date_time_hour'', Get, ''DateTime.Hour''),
     (''comment'', Get, ''Comment''),
     (''additional_data'', Get, ''AdditionalData'')]"

fun apply_rule :: "(string \<Rightarrow> pyfloat option) \<Rightarrow> (string \<times> pyval) list \<Rightarrow> rule \<Rightarrow> string \<Rightarrow> exn + pyval" where
  "apply_rule parse_float transaction Get key = Inr (dict_get transaction key PNone)"
| "apply_rule parse_float transaction SafeGet key = Inr (safe_get transaction key PNone)"
| "apply_rule parse_float transaction Numeric key =
     (case extract_numeric_value parse_float (dict_get transaction key PNone) of
        Inl e \<Rightarrow> Inl e
      | Inr None \<Rightarrow> Inr PNone
      | Inr (Some x) \<Rightarrow> Inr (PFloat x))"

fun parsed_fields :: "(string \<Rightarrow> pyfloat option) \<Rightarrow> (string \<times> pyval) list \<Rightarrow> (string \<times> rule \<times> string) list \<Rightarrow> exn + (string \<times> pyval) list" where
  "parsed_fields parse_float transaction [] = Inr []"
| "parsed_fields parse_float transaction ((target, r, key) # entries) =
     (case apply_rule parse_float transaction r key of
        Inl e \<Rightarrow> Inl e
      | Inr v \<Rightarrow>
          (case parsed_fields parse_float transaction entries of
             Inl e \<Rightarrow> Inl e
           | Inr rest \<Rightarrow> Inr ((target, v) # rest)))"

fun parse_transactions_loop :: "(string \<Rightarrow> pyfloat option) \<Rightarrow> pyval list \<Rightarrow> pyval list \<Rightarrow> exn + pyval list" where
  "parse_transactions_loop parse_float [] parsed_transactions = Inr parsed_transactions"
| "parse_transactions_loop parse_float (transaction # rest) parsed_transactions =
     (case transaction of
        PDict d \<Rightarrow>
          (case parsed_fields parse_float d transaction_fields of
             Inl e \<Rightarrow> Inl e
           | Inr parsed_transaction \<Rightarrow>
               parse_transactions_loop parse_float rest
                 (parsed_transactions @ [PDict parsed_transaction]))
      | _ \<Rightarrow> Inl AttributeError)"

definition parse_transactions :: "(string \<Rightarrow> pyfloat option) \<Rightarrow> pyval \<Rightarrow> world \<Rightarrow> (exn + pyval list) \<times> world" where
  "parse_transactions parse_float data w =
     (if \<not> truthy data then (Inr [], w)
      else
        (case data of
           PList ts \<Rightarrow>
             (case parse_transactions_loop parse_float ts [] of
                Inl e \<Rightarrow> (Inl e, w)
              | Inr parsed_transactions \<Rightarrow>
                  (Inr parsed_transactions,
                   logger_info (Parsed_transactions (length parsed_transactions)) w))
         | PDict _ \<Rightarrow> (Inl AttributeError, w)
         | PStr _ \<Rightarrow> (Inl AttributeError, w)
         | _ \<Rightarrow> (Inl TypeError, w)))"

text \<open>The two entry points behind one signature.\<close>

datatype entry_point = Organizations | Transactions

fun normalize :: "entry_point \<Rightarrow> (string \<Rightarrow> pyfloat option) \<Rightarrow> pyval \<Rightarrow> world \<Rightarrow> (exn + pyval list) \<times> world" where
  "normalize Organizations parse_float data w = parse_organizations data w"
| "normalize Transactions parse_float data w = parse_transactions parse_float data w"

section \<open>The synchronization endpoints\<close>

text \<open>
  A \<^verbatim>\<open>date\<close> is its proleptic Gregorian ordinal, a \<^verbatim>\<open>datetime\<close> a date and the
  microseconds since midnight; \<^verbatim>\<open>dt.date()\<close> is the first component and
  \<^verbatim>\<open>datetime.combine(d, datetime.min.time())\<close> is \<open>midnight d\<close>.

  The endpoints call collaborators that are not part of the router: the clock, the parser
  and formatter of dates of the standard library, the services of \<^verbatim>\<open>iiko_sync\<close>, the cache
  and the index optimizer. They are the fields of \<open>collaborators\<close>. A collaborator that
  acts on the database or the network takes the state of the world \<open>'w\<close> and returns the
  new one, with \<open>Inl e\<close> for an exception it raises.
\<close>

type_synonym datetime = "int \<times> nat"

definition midnight :: "int \<Rightarrow> datetime" where
  "midnight d = (d, 0)"

record counters =
  created :: int
  updated :: int
  errors :: int
  deleted :: int

datatype message =
    Transactions_completed
  | Transactions_failed exn
  | Sales_completed
  | Sales_failed exn

record response =
  success :: bool
  message :: message
  data :: "counters option"

record 'w collaborators =
  now :: "'w \<Rightarrow> datetime \<times> 'w"
  strftime_date :: "int \<Rightarrow> string"
  fromisoformat :: "string \<Rightarrow> exn + datetime"
  iiko_sync_accounts :: "'w \<Rightarrow> (exn + unit) \<times> 'w"
  iiko_sync_transactions :: "datetime \<Rightarrow> datetime \<Rightarrow> 'w \<Rightarrow> (exn + (string \<times> int) list) \<times> 'w"
  iiko_sync_sales :: "datetime \<Rightarrow> datetime \<Rightarrow> 'w \<Rightarrow> (exn + (string \<times> int) list) \<times> 'w"
  invalidate_cache :: "string \<Rightarrow> 'w \<Rightarrow> (exn + unit) \<times> 'w"
  optimize_indexes :: "'w \<Rightarrow> (exn + unit) \<times> 'w"

text \<open>\<^verbatim>\<open>sync_result.get(key, 0)\<close>.\<close>

definition get0 :: "(string \<times> int) list \<Rightarrow> string \<Rightarrow> int" where
  "get0 sync_result key = (case map_of sync_result key of Some n \<Rightarrow> n | None \<Rightarrow> 0)"

definition add_sync_result :: "counters \<Rightarrow> (string \<times> int) list \<Rightarrow> counters" where
  "add_sync_result result sync_result =
     \<lparr>created = created result + get0 sync_result ''created'',
      updated = updated result + get0 sync_result ''updated'',
      errors = errors result + get0 sync_result ''errors'',
      deleted = deleted result + get0 sync_result ''deleted''\<rparr>"

definition no_counts :: counters where
  "no_counts = \<lparr>created = 0, updated = 0, errors = 0, deleted = 0\<rparr>"

text \<open>
  The loop over the days, the same text in \<^verbatim>\<open>sync_transactions\<close> and \<^verbatim>\<open>sync_sales\<close> but
  for the service it awaits (\<open>sync_window\<close>). An exception of the service leaves the loop:
  there is no handler inside it.
\<close>

function sync_days :: "(datetime \<Rightarrow> datetime \<Rightarrow> 'w \<Rightarrow> (exn + (string \<times> int) list) \<times> 'w) \<Rightarrow> int \<Rightarrow> int \<Rightarrow> counters \<Rightarrow> 'w \<Rightarrow> (exn + counters) \<times> 'w" where
  "sync_days sync_window current_date end_date result w =
     (if current_date < end_date then
        (let day_from = midnight current_date;
             day_to = midnight (current_date + 1)
         in case sync_window day_from day_to w of
              (Inl e, w') \<Rightarrow> (Inl e, w')
            | (Inr sync_result, w') \<Rightarrow>
                sync_days sync_window (current_date + 1) end_date
                  (add_sync_result result sync_result) w')
      else (Inr result, w))"
  by pat_completeness auto
termination
  by (relation "measure (\<lambda>(sync_window, current_date, end_date, result, w). nat (end_date - current_date))")
     auto

declare sync_days.simps [simp del]

text \<open>\<^verbatim>\<open>s.replace('Z', '+00:00')\<close>.\<close>

definition replace_Z :: "string \<Rightarrow> string" where
  "replace_Z s = concat (map (\<lambda>c. if c = CHR ''Z'' then ''+00:00'' else [c]) s)"

text \<open>
  The bounds of the range: the defaults (seven days before today, and today, both at
  midnight) are formatted when a bound is missing, and then both strings are parsed. A
  string that \<^verbatim>\<open>fromisoformat\<close> rejects raises.
\<close>

definition default_from :: "'w collaborators \<Rightarrow> string option \<Rightarrow> 'w \<Rightarrow> string \<times> 'w" where
  "default_from env from_date w =
     (case from_date of
        None \<Rightarrow> (let (t, w') = now env w in (strftime_date env (fst t - 7) @ ''T00:00:00.000'', w'))
      | Some s \<Rightarrow> (s, w))"

definition default_to :: "'w collaborators \<Rightarrow> string option \<Rightarrow> 'w \<Rightarrow> string \<times> 'w" where
  "default_to env to_date w =
     (case to_date of
        None \<Rightarrow> (let (t, w') = now env w in (strftime_date env (fst t) @ ''T00:00:00.000'', w'))
      | Some s \<Rightarrow> (s, w))"

definition parse_range :: "'w collaborators \<Rightarrow> string \<Rightarrow> string \<Rightarrow> exn + datetime \<times> datetime" where
  "parse_range env from_date to_date =
     (case fromisoformat env (replace_Z from_date) of
        Inl e \<Rightarrow> Inl e
      | Inr from_dt \<Rightarrow>
          (case fromisoformat env (replace_Z to_date) of
             Inl e \<Rightarrow> Inl e
           | Inr to_dt \<Rightarrow> Inr (from_dt, to_dt)))"

text \<open>
  \<^verbatim>\<open>sync_transactions\<close>: the accounts are synchronized first, in a \<^verbatim>\<open>try\<close> of their own
  whose handler only logs. The rest is one \<^verbatim>\<open>try\<close> whose handler returns the failure
  response; inside it the optimization of the indexes has a handler that only logs.
\<close>

definition sync_transactions :: "'w collaborators \<Rightarrow> string option \<Rightarrow> string option \<Rightarrow> 'w \<Rightarrow> response \<times> 'w" where
  "sync_transactions env from_date to_date w0 =
     (let (accounts, w1) = iiko_sync_accounts env w0;
          (from_s, w2) = default_from env from_date w1;
          (to_s, w3) = default_to env to_date w2
      in case parse_range env from_s to_s of
           Inl e \<Rightarrow> (\<lparr>success = False, message = Transactions_failed e, data = None\<rparr>, w3)
         | Inr (from_dt, to_dt) \<Rightarrow>
             (case sync_days (iiko_sync_transactions env) (fst from_dt) (fst to_dt) no_counts w3 of
                (Inl e, w4) \<Rightarrow>
                  (\<lparr>success = False, message = Transactions_failed e, data = None\<rparr>, w4)
              | (Inr result, w4) \<Rightarrow>
                  (let (optimized, w5) = optimize_indexes env w4
                   in (\<lparr>success = True, message = Transactions_completed, data = Some result\<rparr>, w5))))"

text \<open>
  \<^verbatim>\<open>sync_sales\<close>: one \<^verbatim>\<open>try\<close>. After the loop the three cache tags are invalidated, with
  no handler of their own, and then the indexes are optimized as above.
\<close>

fun invalidate_all :: "'w collaborators \<Rightarrow> string list \<Rightarrow> 'w \<Rightarrow> (exn + unit) \<times> 'w" where
  "invalidate_all env [] w = (Inr (), w)"
| "invalidate_all env (tag # tags) w =
     (case invalidate_cache env tag w of
        (Inl e, w') \<Rightarrow> (Inl e, w')
      | (Inr u, w') \<Rightarrow> invalidate_all env tags w')"

definition sync_sales :: "'w collaborators \<Rightarrow> string option \<Rightarrow> string option \<Rightarrow> 'w \<Rightarrow> response \<times> 'w" where
  "sync_sales env from_date to_date w0 =
     (let (from_s, w1) = default_from env from_date w0;
          (to_s, w2) = default_to env to_date w1
      in case parse_range env from_s to_s of
           Inl e \<Rightarrow> (\<lparr>success = False, message = Sales_failed e, data = None\<rparr>, w2)
         | Inr (from_dt, to_dt) \<Rightarrow>
             (case sync_days (iiko_sync_sales env) (fst from_dt) (fst to_dt) no_counts w2 of
                (Inl e, w3) \<Rightarrow> (\<lparr>success = False, message = Sales_failed e, data = None\<rparr>, w3)
              | (Inr result, w3) \<Rightarrow>
                  (case invalidate_all env [''reports'', ''analytics'', ''popular_dishes''] w3 of
                     (Inl e, w4) \<Rightarrow>
                       (\<lparr>success = False, message = Sales_failed e, data = None\<rparr>, w4)
                   | (Inr u, w4) \<Rightarrow>
                       (let (optimized, w5) = optimize_indexes env w4
                        in (\<lparr>success = True, message = Sales_completed, data = Some result\<rparr>, w5)))))"

subsection \<open>The windows of a run\<close>

text \<open>
  The window planner is the loop itself: the plan of a range is the sequence of windows
  that the loop hands to the service, observed with a service that records its arguments
  and reports nothing.
\<close>

definition recording_window :: "datetime \<Rightarrow> datetime \<Rightarrow> (datetime \<times> datetime) list \<Rightarrow> (exn + (string \<times> int) list) \<times> (datetime \<times> datetime) list" where
  "recording_window day_from day_to seen = (Inr [], seen @ [(day_from, day_to)])"

definition plan :: "datetime \<Rightarrow> datetime \<Rightarrow> (datetime \<times> datetime) list" where
  "plan from_dt to_dt = snd (sync_days recording_window (fst from_dt) (fst to_dt) no_counts [])"

section \<open>Notions used to state the properties\<close>

text \<open>A dictionary holds a numeric value under a key.\<close>

definition numeric_at :: "(string \<times> pyval) list \<Rightarrow> string \<Rightarrow> bool" where
  "numeric_at d k = (case map_of d k of Some v \<Rightarrow> is_int_or_float v | None \<Rightarrow> False)"

text \<open>A number that \<^verbatim>\<open>float\<close> converts: every boolean and float, and the integers in range.\<close>

fun convertible :: "pyval \<Rightarrow> bool" where
  "convertible (PInt n) = (\<bar>n\<bar> < 2 ^ 1024 - 2 ^ 970)"
| "convertible v = True"

text \<open>
  The rule for one scalar of a composite identifier, in the words of the specification: a
  number without fractional part as an integer string and otherwise as its literal text, a
  string trimmed, anything else by its trimmed string conversion.
\<close>

definition scalar_rule :: "(pyval \<Rightarrow> string) \<Rightarrow> pyval \<Rightarrow> string" where
  "scalar_rule py_repr v =
     (case v of
        PBool b \<Rightarrow> (if b then ''1'' else ''0'')
      | PInt n \<Rightarrow> str_of_int n
      | PFloat x \<Rightarrow> (if float_is_integer x then str_of_int (int_of_number v) else py_repr v)
      | PStr s \<Rightarrow> strip s
      | _ \<Rightarrow> strip (py_repr v))"










text \<open>The \<open>n\<close> one-day windows that start on the day \<open>d\<close>, in chronological order.\<close>

definition day_windows :: "int \<Rightarrow> nat \<Rightarrow> (datetime \<times> datetime) list" where
  "day_windows d n = map (\<lambda>k. (midnight (d + int k), midnight (d + int k + 1))) [0..<n]"

text \<open>A parsed record without its two time stamps.\<close>

fun without_stamps :: "pyval \<Rightarrow> pyval" where
  "without_stamps (PDict d) = PDict (filter (\<lambda>(k, v). k \<noteq> ''created_at'' \<and> k \<noteq> ''updated_at'') d)"
| "without_stamps v = v"

text \<open>
  Processing a given sequence of windows in order: the counts of each window are added, and
  the first exception ends the run.
\<close>

fun run_windows :: "(datetime \<Rightarrow> datetime \<Rightarrow> 'w \<Rightarrow> (exn + (string \<times> int) list) \<times> 'w) \<Rightarrow> (datetime \<times> datetime) list \<Rightarrow> counters \<Rightarrow> 'w \<Rightarrow> (exn + counters) \<times> 'w" where
  "run_windows sync_window [] result w = (Inr result, w)"
| "run_windows sync_window ((day_from, day_to) # windows) result w =
     (case sync_window day_from day_to w of
        (Inl e, w') \<Rightarrow> (Inl e, w')
      | (Inr sync_result, w') \<Rightarrow> run_windows sync_window windows (add_sync_result result sync_result) w')"

text \<open>\<^verbatim>\<open>date(y, m, d).toordinal()\<close>, to write dates of the calendar.\<close>

definition is_leap :: "int \<Rightarrow> bool" where
  "is_leap y = (y mod 4 = 0 \<and> (y mod 100 \<noteq> 0 \<or> y mod 400 = 0))"

definition days_before_year :: "int \<Rightarrow> int" where
  "days_before_year year = (let y = year - 1 in y * 365 + y div 4 - y div 100 + y div 400)"

definition days_before_month :: "int \<Rightarrow> nat \<Rightarrow> int" where
  "days_before_month year month =
     sum_list (take (month - 1) [31, if is_leap year then 29 else 28, 31, 30, 31, 30, 31, 31, 30, 31, 30, 31])"

definition ordinal :: "int \<Rightarrow> nat \<Rightarrow> int \<Rightarrow> int" where
  "ordinal year month day = days_before_year year + days_before_month year month + day"

text \<open>
  A run to evaluate the endpoints on: the world is the list of windows the service has been
  called with; the service reports one created record for a window, and raises for the
  window that starts on \<open>bad_day\<close>. The parser of dates knows the two bounds of the
  example of the specification.
\<close>

definition failing_on :: "int \<Rightarrow> datetime \<Rightarrow> datetime \<Rightarrow> (datetime \<times> datetime) list \<Rightarrow> (exn + (string \<times> int) list) \<times> (datetime \<times> datetime) list" where
  "failing_on bad_day day_from day_to seen =
     (if fst day_from = bad_day then (Inl (Failure ''fetch''), seen @ [(day_from, day_to)])
      else (Inr [(''created'', 1)], seen @ [(day_from, day_to)]))"

definition october_parser :: "string \<Rightarrow> exn + datetime" where
  "october_parser s =
     (if s = ''2025-10-01T00:00:00.000'' then Inr (ordinal 2025 10 1, 0)
      else if s = ''2025-10-04T00:00:00.000'' then Inr (ordinal 2025 10 4, 0)
      else Inl ValueError)"

definition october_run :: "int \<Rightarrow> (datetime \<times> datetime) list collaborators" where
  "october_run bad_day =
     \<lparr>now = (\<lambda>w. ((ordinal 2025 10 8, 0), w)),
      strftime_date = (\<lambda>d. []),
      fromisoformat = october_parser,
      iiko_sync_accounts = (\<lambda>w. (Inr (), w)),
      iiko_sync_transactions = failing_on bad_day,
      iiko_sync_sales = failing_on bad_day,
      invalidate_cache = (\<lambda>tag w. (Inr (), w)),
      optimize_indexes = (\<lambda>w. (Inr (), w))\<rparr>"

section \<open>Properties of the scalar coercions\<close>

lemma lower_char_eq_iff:
  "lower_char c = d \<longleftrightarrow>
     (if (65 \<le> (of_char c :: nat) \<and> (of_char c :: nat) \<le> 90)
         \<or> (192 \<le> (of_char c :: nat) \<and> (of_char c :: nat) \<le> 222 \<and> (of_char c :: nat) \<noteq> 215)
      then (of_char c :: nat) + 32 = of_char d else c = d)"
proof (cases "(65 \<le> (of_char c :: nat) \<and> (of_char c :: nat) \<le> 90)
         \<or> (192 \<le> (of_char c :: nat) \<and> (of_char c :: nat) \<le> 222 \<and> (of_char c :: nat) \<noteq> 215)")
  case True
  then have "lower_char c = char_of ((of_char c :: nat) + 32)"
    by (simp add: lower_char_def)
  moreover have "(char_of ((of_char c :: nat) + 32) = d) =
      ((of_char (char_of ((of_char c :: nat) + 32) :: char) :: nat) = of_char d)"
    by (simp only: of_char_eq_iff)
  moreover have "(of_char (char_of ((of_char c :: nat) + 32) :: char) :: nat) = of_char c + 32"
    using True by (auto simp add: of_char_of)
  ultimately show ?thesis using True by simp
next
  case False
  then show ?thesis by (auto simp add: lower_char_def)
qed

lemma of_char_code: "((of_char c :: nat) = of_char d) = (c = d)"
  by (rule of_char_eq_iff)

lemma lower_char_t: "lower_char c = CHR ''t'' \<longleftrightarrow> c = CHR ''t'' \<or> c = CHR ''T''"
  using of_char_code [of c "CHR ''T''"] by (auto simp add: lower_char_eq_iff)

lemma lower_char_r: "lower_char c = CHR ''r'' \<longleftrightarrow> c = CHR ''r'' \<or> c = CHR ''R''"
  using of_char_code [of c "CHR ''R''"] by (auto simp add: lower_char_eq_iff)

lemma lower_char_u: "lower_char c = CHR ''u'' \<longleftrightarrow> c = CHR ''u'' \<or> c = CHR ''U''"
  using of_char_code [of c "CHR ''U''"] by (auto simp add: lower_char_eq_iff)

lemma lower_char_e: "lower_char c = CHR ''e'' \<longleftrightarrow> c = CHR ''e'' \<or> c = CHR ''E''"
  using of_char_code [of c "CHR ''E''"] by (auto simp add: lower_char_eq_iff)

lemma str_lower_true:
  "str_lower s = ''true'' \<longleftrightarrow>
     (\<exists>a b c d. s = [a, b, c, d]
        \<and> (a = CHR ''t'' \<or> a = CHR ''T'') \<and> (b = CHR ''r'' \<or> b = CHR ''R'')
        \<and> (c = CHR ''u'' \<or> c = CHR ''U'') \<and> (d = CHR ''e'' \<or> d = CHR ''E''))"
  unfolding str_lower_def
  apply (simp only: map_eq_Cons_conv lower_char_t lower_char_r lower_char_u lower_char_e map_is_Nil_conv)
  apply (rule iffI)
   apply (elim exE conjE)
   apply simp
  apply (elim exE conjE)
  apply simp
  done

lemma str_lower_TRUE: "str_lower ''TRUE'' = ''true''"
  apply (simp add: str_lower_true)
  done

lemma str_lower_false: "str_lower ''false'' \<noteq> ''true''"
  apply (simp add: str_lower_true)
  done

text \<open>
  Claim C5 (boolean coercion). A native boolean is returned as it is; a text gives true
  exactly when it is one of the spellings of \<^verbatim>\<open>true\<close> in upper or lower case letters;
  every other value, a number included, gives false. So \<^verbatim>\<open>"TRUE"\<close> gives true, and
  \<^verbatim>\<open>"false"\<close> and \<^verbatim>\<open>123\<close> give false.
\<close>

theorem parse_boolean_contract:
  "parse_boolean (PBool b) = b
   \<and> parse_boolean (PStr s) =
       (\<exists>a b c d. s = [a, b, c, d]
          \<and> (a = CHR ''t'' \<or> a = CHR ''T'') \<and> (b = CHR ''r'' \<or> b = CHR ''R'')
          \<and> (c = CHR ''u'' \<or> c = CHR ''U'') \<and> (d = CHR ''e'' \<or> d = CHR ''E''))
   \<and> parse_boolean v = (case v of PBool b \<Rightarrow> b | PStr s \<Rightarrow> parse_boolean (PStr s) | _ \<Rightarrow> False)
   \<and> parse_boolean (PStr ''TRUE'') = True
   \<and> parse_boolean (PStr ''false'') = False
   \<and> parse_boolean (PBool True) = True
   \<and> parse_boolean (PInt 123) = False"
proof (intro conjI)
  show "parse_boolean v = (case v of PBool b \<Rightarrow> b | PStr s \<Rightarrow> parse_boolean (PStr s) | _ \<Rightarrow> False)"
    by (cases v) simp_all
  show "parse_boolean (PStr s) =
       (\<exists>a b c d. s = [a, b, c, d]
          \<and> (a = CHR ''t'' \<or> a = CHR ''T'') \<and> (b = CHR ''r'' \<or> b = CHR ''R'')
          \<and> (c = CHR ''u'' \<or> c = CHR ''U'') \<and> (d = CHR ''e'' \<or> d = CHR ''E''))"
    by (simp only: parse_boolean.simps str_lower_true)
  show "parse_boolean (PStr ''TRUE'') = True"
    using str_lower_TRUE by (simp only: parse_boolean.simps) simp
  show "parse_boolean (PStr ''false'') = False"
    using str_lower_false by (simp only: parse_boolean.simps)
qed simp_all

subsection \<open>Safe-get\<close>

text \<open>
  Claim C9 (safe-get). With the default \<^verbatim>\<open>None\<close>, a key that a dictionary maps to the
  empty dictionary and a key that a dictionary does not have are looked up with the same
  result, \<^verbatim>\<open>None\<close>.
\<close>

theorem safe_get_empty_mapping_as_absent:
  "map_of d k = Some (PDict []) \<Longrightarrow> map_of d' k = None \<Longrightarrow>
     safe_get d k PNone = safe_get d' k PNone \<and> safe_get d k PNone = PNone \<and> safe_get d' k PNone = PNone"
  by (simp add: safe_get_def dict_get_def)

theorem safe_get_empty_mapping_as_absent_witness:
  "map_of [(''Id'', PDict []), (''Name'', PStr ''x'')] ''Id'' = Some (PDict [])
   \<and> map_of [(''Name'', PStr ''x'')] ''Id'' = None
   \<and> safe_get [(''Id'', PDict []), (''Name'', PStr ''x'')] ''Id'' PNone = safe_get [(''Name'', PStr ''x'')] ''Id'' PNone
   \<and> safe_get [(''Id'', PDict []), (''Name'', PStr ''x'')] ''Id'' PNone = PNone"
proof -
  have a: "map_of [(''Id'', PDict []), (''Name'', PStr ''x'')] ''Id'' = Some (PDict [])" by simp
  have b: "map_of [(''Name'', PStr ''x'')] ''Id'' = None" by simp
  show ?thesis
    using a b safe_get_empty_mapping_as_absent [OF a b] by simp
qed

subsection \<open>Numeric coercion\<close>


lemma first_numeric_found:
  "list_all (\<lambda>j. \<not> numeric_at d j) before \<Longrightarrow> map_of d k = Some v \<Longrightarrow> is_int_or_float v \<Longrightarrow>
     first_numeric d (before @ k # after) =
       (case float_of_number v of Inl e \<Rightarrow> Inl e | Inr x \<Rightarrow> Inr (Some x))"
  by (induction before) (auto simp add: numeric_at_def split: option.splits)

lemma float_of_int_in_range:
  "\<bar>n\<bar> < 2 ^ 1024 - 2 ^ 970 \<Longrightarrow> float_of_int n = Inr (Finite (of_int (round53 n)))"
  by (simp add: float_of_int_def)

lemma round53_small: "\<bar>n\<bar> < 2 ^ 53 \<Longrightarrow> round53 n = n"
  by (simp add: round53_def)

lemma float_of_int_small: "\<bar>n\<bar> < 2 ^ 53 \<Longrightarrow> float_of_int n = Inr (Finite (of_int n))"
proof -
  assume a: "\<bar>n\<bar> < 2 ^ 53"
  have "(2::int) ^ 53 \<le> 2 ^ 1024 - 2 ^ 970" by simp
  with a have "\<bar>n\<bar> < 2 ^ 1024 - 2 ^ 970" by linarith
  with a show ?thesis by (simp add: float_of_int_in_range round53_small)
qed

lemma float_of_bool: "float_of_number (PBool b) = Inr (Finite (if b then 1 else 0))"
  by (simp add: float_of_int_small)

text \<open>
  Claim C10 (booleans are numbers for the numeric coercion). A boolean passes the test
  \<^verbatim>\<open>isinstance(v, (int, float))\<close>, so \<^verbatim>\<open>True\<close> gives 1.0 and \<^verbatim>\<open>False\<close> gives 0.0, as
  the value itself and as the value of a priority key that no numeric value precedes
  (\<^verbatim>\<open>{"sum": True}\<close> gives 1.0).
\<close>

theorem extract_numeric_value_accepts_booleans:
  "is_int_or_float (PBool b)
   \<and> extract_numeric_value parse_float (PBool True) = Inr (Some (Finite 1))
   \<and> extract_numeric_value parse_float (PBool False) = Inr (Some (Finite 0))
   \<and> extract_numeric_value parse_float (PDict [(''sum'', PBool True)]) = Inr (Some (Finite 1))
   \<and> (numeric_keys = before @ k # after \<longrightarrow> list_all (\<lambda>j. \<not> numeric_at d j) before \<longrightarrow>
        map_of d k = Some (PBool b) \<longrightarrow>
        extract_numeric_value parse_float (PDict d) = Inr (Some (Finite (if b then 1 else 0))))"
proof (intro conjI impI)
  show "extract_numeric_value parse_float (PBool True) = Inr (Some (Finite 1))"
    by (simp add: float_of_int_small)
  show "extract_numeric_value parse_float (PBool False) = Inr (Some (Finite 0))"
    by (simp add: float_of_int_small)
  show "extract_numeric_value parse_float (PDict [(''sum'', PBool True)]) = Inr (Some (Finite 1))"
    by (simp add: numeric_keys_def float_of_int_small)
next
  assume "numeric_keys = before @ k # after" "list_all (\<lambda>j. \<not> numeric_at d j) before"
    "map_of d k = Some (PBool b)"
  then show "extract_numeric_value parse_float (PDict d) = Inr (Some (Finite (if b then 1 else 0)))"
    using first_numeric_found [of d before k "PBool b" after]
    by (simp add: float_of_bool del: float_of_number.simps first_numeric.simps)
qed simp

theorem extract_numeric_value_accepts_booleans_witness:
  "numeric_keys = [''sum''] @ ''value'' # [''amount'', ''price'', ''average'']
   \<and> list_all (\<lambda>j. \<not> numeric_at [(''sum'', PStr ''n/a''), (''value'', PBool False)] j) [''sum'']
   \<and> extract_numeric_value (\<lambda>s. None) (PDict [(''sum'', PStr ''n/a''), (''value'', PBool False)])
       = Inr (Some (Finite 0))"
proof -
  have a: "numeric_keys = [''sum''] @ ''value'' # [''amount'', ''price'', ''average'']"
    by (simp add: numeric_keys_def)
  have b: "list_all (\<lambda>j. \<not> numeric_at [(''sum'', PStr ''n/a''), (''value'', PBool False)] j) [''sum'']"
    by (simp add: numeric_at_def)
  have c: "map_of [(''sum'', PStr ''n/a''), (''value'', PBool False)] ''value'' = Some (PBool False)"
    by simp
  show ?thesis
    using a b c
      extract_numeric_value_accepts_booleans
        [of False "\<lambda>s. None" "[''sum'']" "''value''" "[''amount'', ''price'', ''average'']"
          "[(''sum'', PStr ''n/a''), (''value'', PBool False)]"]
    by simp
qed

lemma extract_numeric_value_number:
  "is_int_or_float v \<Longrightarrow>
     extract_numeric_value parse_float v =
       (case float_of_number v of Inl e \<Rightarrow> Inl e | Inr x \<Rightarrow> Inr (Some x))"
  by (cases v) simp_all




subsection \<open>Composite identifiers\<close>

lemma float_is_integer_of_int: "float_is_integer (Finite (of_int m))"
  by simp

lemma str_of_number_scalar:
  "is_int_or_float v \<Longrightarrow> convertible v \<Longrightarrow> str_of_number py_repr v = Inr (scalar_rule py_repr v)"
proof (cases v)
  case (PBool b)
  have "str_of_int 1 = ''1''" "str_of_int 0 = ''0''"
    by (simp_all add: str_of_int_def digits_of.simps digit_char_def)
  with PBool show ?thesis
    by (simp add: str_of_number_def scalar_rule_def float_of_int_small)
next
  case (PInt n)
  assume "convertible v"
  with PInt have "float_of_int n = Inr (Finite (of_int (round53 n)))"
    by (simp add: float_of_int_in_range)
  with PInt show ?thesis
    by (simp add: str_of_number_def scalar_rule_def del: float_is_integer.simps add: float_is_integer_of_int)
next
  case (PFloat x)
  then show ?thesis
    by (simp add: str_of_number_def scalar_rule_def str_of_def)
qed simp_all

lemma strip_str_of_scalar:
  "\<not> is_int_or_float v \<Longrightarrow> strip (str_of py_repr v) = scalar_rule py_repr v"
  by (cases v) (simp_all add: str_of_def scalar_rule_def)

lemma fiscal_items_scalar:
  "list_all convertible xs \<Longrightarrow>
     fiscal_items py_repr xs cleaned =
       Inr (cleaned @ map (scalar_rule py_repr) (filter (\<lambda>v. v \<noteq> PNone) xs))"
proof (induction xs arbitrary: cleaned)
  case Nil
  then show ?case by simp
next
  case (Cons item items)
  then have rest: "\<And>c. fiscal_items py_repr items c =
      Inr (c @ map (scalar_rule py_repr) (filter (\<lambda>v. v \<noteq> PNone) items))"
    and conv: "convertible item"
    by simp_all
  show ?case
  proof (cases "item = PNone")
    case True
    then show ?thesis by (simp add: rest)
  next
    case False
    show ?thesis
    proof (cases "is_int_or_float item")
      case True
      with False conv show ?thesis
        by (simp add: rest str_of_number_scalar)
    next
      case num: False
      with False show ?thesis
        by (simp add: rest strip_str_of_scalar)
    qed
  qed
qed

lemma filter_not_none_empty:
  "(filter (\<lambda>v. v \<noteq> PNone) xs = []) = list_all (\<lambda>v. v = PNone) xs"
  by (induction xs) auto

lemma fiscal_number: "is_int_or_float v \<Longrightarrow> convertible v \<Longrightarrow> extract_fiscal_cheque_number py_repr v = Inr (Some (scalar_rule py_repr v))"
  by (cases v) (simp_all add: extract_fiscal_cheque_number_def str_of_number_scalar)

lemma fiscal_integral: "float_is_integer x \<Longrightarrow> extract_fiscal_cheque_number py_repr (PFloat x) = Inr (Some (str_of_int (int_of_number (PFloat x))))"
  using fiscal_number [of "PFloat x"] by (simp add: scalar_rule_def)

lemma fiscal_literal: "\<not> float_is_integer x \<Longrightarrow> extract_fiscal_cheque_number py_repr (PFloat x) = Inr (Some (py_repr (PFloat x)))"
  using fiscal_number [of "PFloat x"] by (simp add: scalar_rule_def)

lemma fiscal_int: "\<bar>n\<bar> < 2 ^ 1024 - 2 ^ 970 \<Longrightarrow> extract_fiscal_cheque_number py_repr (PInt n) = Inr (Some (str_of_int n))"
  using fiscal_number [of "PInt n"] by (simp add: scalar_rule_def)

lemma fiscal_seq: "list_all convertible xs \<Longrightarrow> extract_fiscal_cheque_number py_repr (PList xs) =
          Inr (if list_all (\<lambda>v. v = PNone) xs then None
               else Some (join '', '' (map (scalar_rule py_repr) (filter (\<lambda>v. v \<noteq> PNone) xs))))"
  by (simp add: extract_fiscal_cheque_number_def fiscal_items_scalar filter_not_none_empty)

lemma str_of_int_19758: "str_of_int 19758 = ''19758''"
  by (simp add: str_of_int_def digits_of.simps digit_char_def)

lemma str_of_int_23: "str_of_int 23 = ''23''"
  by (simp add: str_of_int_def digits_of.simps digit_char_def)

lemma fiscal_example_float: "extract_fiscal_cheque_number py_repr (PFloat (Finite 19758)) = Inr (Some ''19758'')"
  using fiscal_integral [of "Finite 19758"] str_of_int_19758 by simp

lemma fiscal_example_list: "extract_fiscal_cheque_number py_repr (PList [PInt 19758, PInt 23]) = Inr (Some ''19758, 23'')"
  using fiscal_seq [of "[PInt 19758, PInt 23]"] str_of_int_19758 str_of_int_23 by (simp add: scalar_rule_def)

lemma fiscal_example_empty: "extract_fiscal_cheque_number py_repr (PList []) = Inr None"
  using fiscal_seq [of "[]"] by simp

lemma fiscal_example_nulls: "extract_fiscal_cheque_number py_repr (PList [PNone, PNone]) = Inr None"
  using fiscal_seq [of "[PNone, PNone]"] by simp

lemma fiscal_rest: "extract_fiscal_cheque_number py_repr PNone = Inr None"
    "extract_fiscal_cheque_number py_repr (PStr s) = Inr (Some (strip s))"
    "extract_fiscal_cheque_number py_repr (PDict d) = Inr (Some (strip (py_repr (PDict d))))"
    "extract_fiscal_cheque_number py_repr (PDatetime day us) = Inr (Some (strip (py_repr (PDatetime day us))))"
  by (simp_all add: extract_fiscal_cheque_number_def str_of_def)

lemma fiscal_example_nbsp:
  "extract_fiscal_cheque_number py_repr (PStr [CHR 0xA0, CHR ''7'', CHR 0x85]) = Inr (Some ''7'')"
  by (simp add: extract_fiscal_cheque_number_def strip_def is_space_def)

text \<open>
  The composite-identifier coercion where \<^verbatim>\<open>float\<close> converts the numbers (every float and
  boolean, and an integer below \<open>2 ^ 1024 - 2 ^ 970\<close> in magnitude): \<^verbatim>\<open>None\<close> gives
  \<^verbatim>\<open>None\<close>; a number is rendered as an integer string when it has no fractional part and
  as its literal text otherwise; a string is trimmed, of the no-break space too; a list
  is rendered by the scalar rule on each element that is not \<^verbatim>\<open>None\<close>, joined with a comma
  and a space, and gives \<^verbatim>\<open>None\<close> when no element is left; any other value gives its
  trimmed string conversion.
\<close>

theorem extract_fiscal_cheque_number_contract:
  "extract_fiscal_cheque_number py_repr PNone = Inr None
   \<and> (is_int_or_float v \<longrightarrow> convertible v \<longrightarrow>
        extract_fiscal_cheque_number py_repr v = Inr (Some (scalar_rule py_repr v)))
   \<and> (float_is_integer x \<longrightarrow>
        extract_fiscal_cheque_number py_repr (PFloat x) = Inr (Some (str_of_int (int_of_number (PFloat x)))))
   \<and> (\<bar>n\<bar> < 2 ^ 1024 - 2 ^ 970 \<longrightarrow>
        extract_fiscal_cheque_number py_repr (PInt n) = Inr (Some (str_of_int n)))
   \<and> (float_is_integer x \<or> extract_fiscal_cheque_number py_repr (PFloat x) = Inr (Some (py_repr (PFloat x))))
   \<and> extract_fiscal_cheque_number py_repr (PStr s) = Inr (Some (strip s))
   \<and> (list_all convertible xs \<longrightarrow>
        extract_fiscal_cheque_number py_repr (PList xs) =
          Inr (if list_all (\<lambda>v. v = PNone) xs then None
               else Some (join '', '' (map (scalar_rule py_repr) (filter (\<lambda>v. v \<noteq> PNone) xs)))))
   \<and> extract_fiscal_cheque_number py_repr (PDict d) = Inr (Some (strip (py_repr (PDict d))))
   \<and> extract_fiscal_cheque_number py_repr (PDatetime day us) = Inr (Some (strip (py_repr (PDatetime day us))))
   \<and> extract_fiscal_cheque_number py_repr (PFloat (Finite 19758)) = Inr (Some ''19758'')
   \<and> extract_fiscal_cheque_number py_repr (PList [PInt 19758, PInt 23]) = Inr (Some ''19758, 23'')
   \<and> extract_fiscal_cheque_number py_repr (PList []) = Inr None
   \<and> extract_fiscal_cheque_number py_repr (PList [PNone, PNone]) = Inr None
   \<and> extract_fiscal_cheque_number py_repr (PStr [CHR 0xA0, CHR ''7'', CHR 0x85]) = Inr (Some ''7'')"
proof (intro conjI impI)
  show "float_is_integer x \<or> extract_fiscal_cheque_number py_repr (PFloat x) = Inr (Some (py_repr (PFloat x)))"
    using fiscal_literal [of x py_repr] by blast
  show "extract_fiscal_cheque_number py_repr (PStr [CHR 0xA0, CHR ''7'', CHR 0x85]) = Inr (Some ''7'')"
    by (rule fiscal_example_nbsp)
qed (simp_all only: fiscal_number fiscal_integral fiscal_int fiscal_seq fiscal_rest
      fiscal_example_float fiscal_example_list fiscal_example_empty fiscal_example_nulls)

theorem extract_fiscal_cheque_number_contract_witness:
  "extract_fiscal_cheque_number (\<lambda>v. ''12.5'') (PBool True) = Inr (Some ''1'')
   \<and> extract_fiscal_cheque_number (\<lambda>v. ''12.5'') (PInt 42) = Inr (Some ''42'')
   \<and> extract_fiscal_cheque_number (\<lambda>v. ''12.5'') (PFloat (Finite 3)) = Inr (Some ''3'')
   \<and> extract_fiscal_cheque_number (\<lambda>v. ''12.5'') (PFloat (Finite (25 / 2))) = Inr (Some ''12.5'')
   \<and> extract_fiscal_cheque_number (\<lambda>v. ''12.5'') (PList [PInt 7, PNone, PStr '' a '']) = Inr (Some ''7, a'')"
proof -
  note inst = extract_fiscal_cheque_number_contract
    [where py_repr = "\<lambda>v. ''12.5''" and v = "PBool True" and n = 42
       and xs = "[PInt 7, PNone, PStr '' a '']"]
  note inst3 = inst [where x = "Finite 3"]
  note inst12 = inst [where x = "Finite (25 / 2)"]
  have digits: "str_of_int 42 = ''42''" "str_of_int 3 = ''3''" "str_of_int 7 = ''7''"
    by (simp_all add: str_of_int_def digits_of.simps digit_char_def)
  have half: "\<lfloor>25 / 2 :: rat\<rfloor> = 12"
    by (rule floor_unique) simp_all
  have trimmed: "strip '' a '' = ''a''"
    by (simp add: strip_def is_space_def)
  have "extract_fiscal_cheque_number (\<lambda>v. ''12.5'') (PBool True) = Inr (Some ''1'')"
    using inst3 [THEN conjunct2, THEN conjunct1] by (simp add: scalar_rule_def)
  moreover have "extract_fiscal_cheque_number (\<lambda>v. ''12.5'') (PInt 42) = Inr (Some ''42'')"
    using inst3 [THEN conjunct2, THEN conjunct2, THEN conjunct2, THEN conjunct1] digits by simp
  moreover have "extract_fiscal_cheque_number (\<lambda>v. ''12.5'') (PFloat (Finite 3)) = Inr (Some ''3'')"
    using inst3 [THEN conjunct2, THEN conjunct2, THEN conjunct1] digits by simp
  moreover have "extract_fiscal_cheque_number (\<lambda>v. ''12.5'') (PFloat (Finite (25 / 2))) = Inr (Some ''12.5'')"
    using inst12 [THEN conjunct2, THEN conjunct2, THEN conjunct2, THEN conjunct2, THEN conjunct1]
    by (simp add: half)
  moreover have "extract_fiscal_cheque_number (\<lambda>v. ''12.5'') (PList [PInt 7, PNone, PStr '' a ''])
      = Inr (Some ''7, a'')"
    using inst3 [THEN conjunct2, THEN conjunct2, THEN conjunct2, THEN conjunct2, THEN conjunct2,
      THEN conjunct2, THEN conjunct1] digits trimmed
    by (simp add: scalar_rule_def)
  ultimately show ?thesis by (intro conjI)
qed

text \<open>
  Claim C6 (composite-identifier coercion). The claim has every number without fractional
  part rendered as an integer string, and the source supports numbers by its own
  description. It applies \<^verbatim>\<open>float\<close> to the number only to ask whether it is integral, and
  for an integer that \<^verbatim>\<open>float\<close> cannot convert this raises \<^verbatim>\<open>OverflowError\<close>: the integer
  \<open>2 ^ 1024\<close> is not rendered, by itself or as an element of a list, where the scalar
  rule of the claim gives its decimal numeral.
\<close>

theorem extract_fiscal_cheque_number_overflows:
  "is_int_or_float (PInt (2 ^ 1024))
   \<and> extract_fiscal_cheque_number (\<lambda>v. []) (PInt (2 ^ 1024)) = Inl OverflowError
   \<and> extract_fiscal_cheque_number (\<lambda>v. []) (PList [PInt 19758, PInt (2 ^ 1024)]) = Inl OverflowError
   \<and> scalar_rule (\<lambda>v. []) (PInt (2 ^ 1024)) = str_of_int (2 ^ 1024)"
  by (simp add: extract_fiscal_cheque_number_def str_of_number_def float_of_int_def scalar_rule_def)

subsection \<open>The loop over the days\<close>

lemma day_windows_0: "day_windows d 0 = []"
  by (simp add: day_windows_def)

lemma day_windows_Suc:
  "day_windows d (Suc n) = (midnight d, midnight (d + 1)) # day_windows (d + 1) n"
proof -
  have "[0..<Suc n] = 0 # map Suc [0..<n]"
    by (simp add: upt_conv_Cons map_Suc_upt del: upt_Suc)
  then show ?thesis
    by (simp add: day_windows_def comp_def ac_simps del: upt_Suc)
qed

lemma sync_days_done:
  "end_date \<le> current_date \<Longrightarrow> sync_days sync_window current_date end_date result w = (Inr result, w)"
  by (subst sync_days.simps) simp

lemma sync_days_step:
  "current_date < end_date \<Longrightarrow>
     sync_days sync_window current_date end_date result w =
       (case sync_window (midnight current_date) (midnight (current_date + 1)) w of
          (Inl e, w') \<Rightarrow> (Inl e, w')
        | (Inr sync_result, w') \<Rightarrow>
            sync_days sync_window (current_date + 1) end_date (add_sync_result result sync_result) w')"
  by (subst sync_days.simps) (simp add: Let_def)

lemma sync_days_run_windows:
  "sync_days sync_window current_date end_date result w =
     run_windows sync_window (day_windows current_date (nat (end_date - current_date))) result w"
proof (induction "nat (end_date - current_date)" arbitrary: current_date result w)
  case 0
  then show ?case by (simp add: sync_days_done day_windows_0)
next
  case (Suc n)
  then have lt: "current_date < end_date" and n: "n = nat (end_date - (current_date + 1))"
    by linarith+
  from Suc(2) have len: "nat (end_date - current_date) = Suc n" by simp
  show ?case
    unfolding len day_windows_Suc
    by (simp add: sync_days_step [OF lt] Suc(1) [OF n] n split: prod.splits sum.splits)
qed

lemma add_nothing: "add_sync_result result [] = result"
  by (simp add: add_sync_result_def get0_def)

lemma run_windows_recording:
  "run_windows recording_window windows result seen = (Inr result, seen @ windows)"
  by (induction windows arbitrary: seen) (auto simp add: recording_window_def add_nothing)

lemma plan_day_windows:
  "plan from_dt to_dt = day_windows (fst from_dt) (nat (fst to_dt - fst from_dt))"
  by (simp add: plan_def sync_days_run_windows run_windows_recording)

lemma ordinals_october:
  "ordinal 2025 10 1 = 739525" "ordinal 2025 10 2 = 739526"
  "ordinal 2025 10 3 = 739527" "ordinal 2025 10 4 = 739528"
  by (simp_all add: ordinal_def days_before_year_def days_before_month_def is_leap_def)



subsection \<open>Failures of a window\<close>

lemma run_windows_append:
  "run_windows sync_window (before @ windows) result w =
     (case run_windows sync_window before result w of
        (Inl e, u) \<Rightarrow> (Inl e, u)
      | (Inr partial, u) \<Rightarrow> run_windows sync_window windows partial u)"
  by (induction before arbitrary: result w) (auto split: prod.splits sum.splits)

lemma run_windows_returns:
  "\<forall>a b u. \<exists>sr u'. sync_window a b u = (Inr sr, u') \<Longrightarrow>
     \<exists>total u'. run_windows sync_window windows result w = (Inr total, u')"
proof (induction windows arbitrary: result w)
  case Nil
  then show ?case by simp
next
  case (Cons window windows)
  obtain a b where window: "window = (a, b)" by (cases window)
  from Cons.prems obtain sr u' where "sync_window a b w = (Inr sr, u')" by blast
  with Cons.IH [OF Cons.prems] window show ?case by simp
qed

lemma run_windows_sum:
  "\<forall>a b u. fst (sync_window a b u) = Inr (f a b) \<Longrightarrow>
     fst (run_windows sync_window windows result w) =
       Inr (foldl add_sync_result result (map (\<lambda>(a, b). f a b) windows))"
proof (induction windows arbitrary: result w)
  case Nil
  then show ?case by simp
next
  case (Cons window windows)
  obtain a b where window: "window = (a, b)" by (cases window)
  from Cons.prems have "fst (sync_window a b w) = Inr (f a b)" by blast
  then obtain u' where "sync_window a b w = (Inr (f a b), u')" by (cases "sync_window a b w") simp
  with Cons.IH [OF Cons.prems] window show ?case by simp
qed

text \<open>
  Claim C1 (partial-failure isolation), amended. In a run over several windows the counts
  that the service returns for a window, its count of errors included, are added field by
  field to the result of the run, and the run goes on with the next window; when the
  service returns for every window, the run returns, and when what the service returns
  depends on the window only, the result is the sum over all windows of the plan. A window
  for which the service raises is not isolated: the run stops at that window with the
  exception, whatever windows remain.
\<close>

theorem sync_days_adds_counts_until_a_window_raises:
  "(current_date < end_date \<longrightarrow>
      sync_window (midnight current_date) (midnight (current_date + 1)) w = (Inr sync_result, w') \<longrightarrow>
      sync_days sync_window current_date end_date result w =
        sync_days sync_window (current_date + 1) end_date (add_sync_result result sync_result) w')
   \<and> created (add_sync_result result sync_result) = created result + get0 sync_result ''created''
   \<and> updated (add_sync_result result sync_result) = updated result + get0 sync_result ''updated''
   \<and> errors (add_sync_result result sync_result) = errors result + get0 sync_result ''errors''
   \<and> deleted (add_sync_result result sync_result) = deleted result + get0 sync_result ''deleted''
   \<and> ((\<forall>a b u. \<exists>sr u'. sync_window a b u = (Inr sr, u')) \<longrightarrow>
        (\<exists>total u'. sync_days sync_window current_date end_date result w = (Inr total, u')))
   \<and> ((\<forall>a b u. fst (sync_window a b u) = Inr (f a b)) \<longrightarrow>
        fst (sync_days sync_window current_date end_date result w) =
          Inr (foldl add_sync_result result
                (map (\<lambda>(a, b). f a b) (plan (current_date, t) (end_date, t')))))
   \<and> (current_date < end_date \<longrightarrow>
        sync_window (midnight current_date) (midnight (current_date + 1)) w = (Inl e, w') \<longrightarrow>
        sync_days sync_window current_date end_date result w = (Inl e, w'))
   \<and> (plan (current_date, t) (end_date, t') = before @ (day_from, day_to) # after \<longrightarrow>
        run_windows sync_window before result w = (Inr partial, u) \<longrightarrow>
        sync_window day_from day_to u = (Inl e, u') \<longrightarrow>
        sync_days sync_window current_date end_date result w = (Inl e, u'))"
proof (intro conjI impI)
  assume "current_date < end_date"
    "sync_window (midnight current_date) (midnight (current_date + 1)) w = (Inr sync_result, w')"
  then show "sync_days sync_window current_date end_date result w =
        sync_days sync_window (current_date + 1) end_date (add_sync_result result sync_result) w'"
    by (simp add: sync_days_step)
next
  assume "\<forall>a b u. \<exists>sr u'. sync_window a b u = (Inr sr, u')"
  then show "\<exists>total u'. sync_days sync_window current_date end_date result w = (Inr total, u')"
    unfolding sync_days_run_windows by (rule run_windows_returns)
next
  assume "\<forall>a b u. fst (sync_window a b u) = Inr (f a b)"
  then show "fst (sync_days sync_window current_date end_date result w) =
          Inr (foldl add_sync_result result
                (map (\<lambda>(a, b). f a b) (plan (current_date, t) (end_date, t'))))"
    unfolding sync_days_run_windows plan_day_windows fst_conv by (rule run_windows_sum)
next
  assume "current_date < end_date"
    "sync_window (midnight current_date) (midnight (current_date + 1)) w = (Inl e, w')"
  then show "sync_days sync_window current_date end_date result w = (Inl e, w')"
    by (simp add: sync_days_step)
next
  assume "plan (current_date, t) (end_date, t') = before @ (day_from, day_to) # after"
    "run_windows sync_window before result w = (Inr partial, u)"
    "sync_window day_from day_to u = (Inl e, u')"
  then show "sync_days sync_window current_date end_date result w = (Inl e, u')"
    by (simp add: sync_days_run_windows plan_day_windows run_windows_append)
qed (simp_all add: add_sync_result_def)

lemma october_windows:
  "plan (739525, t) (739528, t') =
     [(midnight 739525, midnight 739526), (midnight 739526, midnight 739527),
      (midnight 739527, midnight 739528)]"
  by (simp add: plan_day_windows) (simp add: eval_nat_numeral day_windows_Suc day_windows_0)

lemma october_loop_fails:
  "sync_days (failing_on 739526) 739525 739528 no_counts [] =
     (Inl (Failure ''fetch''),
      [(midnight 739525, midnight 739526), (midnight 739526, midnight 739527)])"
  using october_windows [of 0 0]
  by (simp add: sync_days_run_windows plan_day_windows failing_on_def midnight_def)

lemma october_range:
  "parse_range (october_run bad_day) ''2025-10-01T00:00:00.000'' ''2025-10-04T00:00:00.000'' =
     Inr ((739525, 0), (739528, 0))"
  by (simp add: parse_range_def october_run_def october_parser_def replace_Z_def ordinals_october)

theorem sync_days_adds_counts_until_a_window_raises_witness:
  "sync_days (failing_on 739526) 739525 739528 no_counts [] =
     sync_days (failing_on 739526) 739526 739528
       \<lparr>created = 1, updated = 0, errors = 0, deleted = 0\<rparr> [(midnight 739525, midnight 739526)]
   \<and> sync_days (failing_on 739526) 739526 739528 no_counts [] =
       (Inl (Failure ''fetch''), [(midnight 739526, midnight 739527)])
   \<and> sync_days (failing_on 739526) 739525 739528 no_counts [] =
       (Inl (Failure ''fetch''), [(midnight 739525, midnight 739526), (midnight 739526, midnight 739527)])
   \<and> (\<exists>total u'. sync_days recording_window 739525 739528 no_counts [] = (Inr total, u'))
   \<and> fst (sync_days (\<lambda>a b u. (Inr [(''created'', 1), (''errors'', 1)], u)) 739525 739528 no_counts []) =
       Inr \<lparr>created = 3, updated = 0, errors = 3, deleted = 0\<rparr>"
proof -
  note inst = sync_days_adds_counts_until_a_window_raises
    [where sync_window = "failing_on 739526" and end_date = 739528 and result = no_counts and t = 0 and t' = 0]
  have "sync_days (failing_on 739526) 739525 739528 no_counts [] =
     sync_days (failing_on 739526) 739526 739528
       \<lparr>created = 1, updated = 0, errors = 0, deleted = 0\<rparr> [(midnight 739525, midnight 739526)]"
    using inst [where current_date = 739525 and w = "[]" and sync_result = "[(''created'', 1)]"
        and w' = "[(midnight 739525, midnight 739526)]", THEN conjunct1]
    by (simp add: failing_on_def midnight_def add_sync_result_def get0_def no_counts_def)
  moreover have "sync_days (failing_on 739526) 739526 739528 no_counts [] =
       (Inl (Failure ''fetch''), [(midnight 739526, midnight 739527)])"
    using inst [where current_date = 739526 and w = "[]" and e = "Failure ''fetch''"
        and w' = "[(midnight 739526, midnight 739527)]",
        THEN conjunct2, THEN conjunct2, THEN conjunct2, THEN conjunct2, THEN conjunct2,
        THEN conjunct2, THEN conjunct2, THEN conjunct1]
    by (simp add: failing_on_def midnight_def)
  moreover have "sync_days (failing_on 739526) 739525 739528 no_counts [] =
       (Inl (Failure ''fetch''), [(midnight 739525, midnight 739526), (midnight 739526, midnight 739527)])"
    using inst [where current_date = 739525 and w = "[]" and e = "Failure ''fetch''"
        and before = "[(midnight 739525, midnight 739526)]" and day_from = "midnight 739526"
        and day_to = "midnight 739527" and after = "[(midnight 739527, midnight 739528)]"
        and partial = "\<lparr>created = 1, updated = 0, errors = 0, deleted = 0\<rparr>"
        and u = "[(midnight 739525, midnight 739526)]"
        and u' = "[(midnight 739525, midnight 739526), (midnight 739526, midnight 739527)]",
        THEN conjunct2, THEN conjunct2, THEN conjunct2, THEN conjunct2, THEN conjunct2,
        THEN conjunct2, THEN conjunct2, THEN conjunct2]
      october_windows [of 0 0]
    by (simp add: failing_on_def midnight_def add_sync_result_def get0_def no_counts_def)
  moreover have "\<exists>total u'. sync_days recording_window 739525 739528 no_counts [] = (Inr total, u')"
    using sync_days_adds_counts_until_a_window_raises
      [where sync_window = recording_window and current_date = 739525 and end_date = 739528
         and result = no_counts and w = "[]",
        THEN conjunct2, THEN conjunct2, THEN conjunct2, THEN conjunct2, THEN conjunct2, THEN conjunct1]
    by (simp add: recording_window_def)
  moreover have "fst (sync_days (\<lambda>a b u. (Inr [(''created'', 1), (''errors'', 1)], u)) 739525 739528 no_counts []) =
       Inr \<lparr>created = 3, updated = 0, errors = 3, deleted = 0\<rparr>"
    using sync_days_adds_counts_until_a_window_raises
      [where sync_window = "\<lambda>a b u. (Inr [(''created'', 1), (''errors'', 1)], u)"
         and current_date = 739525 and end_date = 739528
         and result = no_counts and w = "[]" and f = "\<lambda>a b. [(''created'', 1), (''errors'', 1)]"
         and t = 0 and t' = 0,
        THEN conjunct2, THEN conjunct2, THEN conjunct2, THEN conjunct2, THEN conjunct2,
        THEN conjunct2, THEN conjunct1]
      october_windows [of 0 0]
    by (simp add: failing_on_def midnight_def add_sync_result_def get0_def no_counts_def)
  ultimately show ?thesis by (intro conjI)
qed

text \<open>
  The claim as it is written fails on the three windows from 2025-10-01 to 2025-10-04 when
  the service raises for the second: the endpoint returns no counters at all, where the
  claim has one error and the two records of the first and the third window, and the third
  window is never handed to the service.
\<close>

theorem window_failure_aborts_the_run_counterexample:
  "sync_transactions (october_run (ordinal 2025 10 2))
      (Some ''2025-10-01T00:00:00.000'') (Some ''2025-10-04T00:00:00.000'') [] =
     (\<lparr>success = False, message = Transactions_failed (Failure ''fetch''), data = None\<rparr>,
      [(midnight (ordinal 2025 10 1), midnight (ordinal 2025 10 2)),
       (midnight (ordinal 2025 10 2), midnight (ordinal 2025 10 3))])
   \<and> data (fst (sync_transactions (october_run (ordinal 2025 10 2))
        (Some ''2025-10-01T00:00:00.000'') (Some ''2025-10-04T00:00:00.000'') [])) \<noteq>
       Some \<lparr>created = 2, updated = 0, errors = 1, deleted = 0\<rparr>"
proof -
  have "sync_transactions (october_run 739526)
      (Some ''2025-10-01T00:00:00.000'') (Some ''2025-10-04T00:00:00.000'') [] =
     (\<lparr>success = False, message = Transactions_failed (Failure ''fetch''), data = None\<rparr>,
      [(midnight 739525, midnight 739526), (midnight 739526, midnight 739527)])"
    by (simp add: sync_transactions_def default_from_def default_to_def october_range)
       (simp add: october_run_def october_loop_fails)
  then show ?thesis
    by (simp add: ordinals_october)
qed

subsection \<open>The responses of the endpoints\<close>

lemma sync_days_plan:
  "sync_days sync_window (fst from_dt) (fst to_dt) result w =
     run_windows sync_window (plan from_dt to_dt) result w"
  by (simp only: plan_day_windows sync_days_run_windows)

lemma sync_transactions_response:
  "fst (sync_transactions env from_date to_date w) =
     (case iiko_sync_accounts env w of (accounts, w1) \<Rightarrow>
      case default_from env from_date w1 of (from_s, w2) \<Rightarrow>
      case default_to env to_date w2 of (to_s, w3) \<Rightarrow>
        (case parse_range env from_s to_s of
           Inl e \<Rightarrow> \<lparr>success = False, message = Transactions_failed e, data = None\<rparr>
         | Inr (from_dt, to_dt) \<Rightarrow>
             (case fst (run_windows (iiko_sync_transactions env) (plan from_dt to_dt) no_counts w3) of
                Inl e \<Rightarrow> \<lparr>success = False, message = Transactions_failed e, data = None\<rparr>
              | Inr result \<Rightarrow>
                  \<lparr>success = True, message = Transactions_completed, data = Some result\<rparr>)))"
  by (simp add: sync_transactions_def sync_days_plan split: prod.splits sum.splits)

lemma sync_sales_response:
  "fst (sync_sales env from_date to_date w) =
     (case default_from env from_date w of (from_s, w1) \<Rightarrow>
      case default_to env to_date w1 of (to_s, w2) \<Rightarrow>
        (case parse_range env from_s to_s of
           Inl e \<Rightarrow> \<lparr>success = False, message = Sales_failed e, data = None\<rparr>
         | Inr (from_dt, to_dt) \<Rightarrow>
             (case run_windows (iiko_sync_sales env) (plan from_dt to_dt) no_counts w2 of
                (Inl e, w3) \<Rightarrow> \<lparr>success = False, message = Sales_failed e, data = None\<rparr>
              | (Inr result, w3) \<Rightarrow>
                  (case fst (invalidate_all env [''reports'', ''analytics'', ''popular_dishes''] w3) of
                     Inl e \<Rightarrow> \<lparr>success = False, message = Sales_failed e, data = None\<rparr>
                   | Inr u \<Rightarrow> \<lparr>success = True, message = Sales_completed, data = Some result\<rparr>))))"
  by (simp add: sync_sales_def sync_days_plan del: invalidate_all.simps split: prod.splits sum.splits)

lemma sync_transactions_shape:
  "success (fst (sync_transactions env from_date to_date w)) =
     (data (fst (sync_transactions env from_date to_date w)) \<noteq> None)"
  unfolding sync_transactions_response by (simp split: prod.splits sum.splits)

lemma sync_sales_shape:
  "success (fst (sync_sales env from_date to_date w)) =
     (data (fst (sync_sales env from_date to_date w)) \<noteq> None)"
  unfolding sync_sales_response by (simp split: prod.splits sum.splits)

lemma sync_transactions_window_raises:
  assumes "parse_range env from_s to_s = Inr (from_dt, to_dt)"
    and "plan from_dt to_dt = before @ (day_from, day_to) # after"
    and "run_windows (iiko_sync_transactions env) before no_counts (snd (iiko_sync_accounts env w)) = (Inr partial, u)"
    and "iiko_sync_transactions env day_from day_to u = (Inl e, u')"
  shows "fst (sync_transactions env (Some from_s) (Some to_s) w) =
     \<lparr>success = False, message = Transactions_failed e, data = None\<rparr>"
  using assms
  by (auto simp add: sync_transactions_response default_from_def default_to_def run_windows_append
      split: prod.splits)

lemma sync_sales_window_raises:
  assumes "parse_range env from_s to_s = Inr (from_dt, to_dt)"
    and "plan from_dt to_dt = before @ (day_from, day_to) # after"
    and "run_windows (iiko_sync_sales env) before no_counts w = (Inr partial, u)"
    and "iiko_sync_sales env day_from day_to u = (Inl e, u')"
  shows "fst (sync_sales env (Some from_s) (Some to_s) w) =
     \<lparr>success = False, message = Sales_failed e, data = None\<rparr>"
  using assms
  by (auto simp add: sync_sales_response default_from_def default_to_def run_windows_append
      simp del: invalidate_all.simps split: prod.splits)

text \<open>
  Claim C7 (error contract of the trigger surface), amended. The response of the
  transactions and of the sales endpoint is \<^verbatim>\<open>{success: true, message, data: {created,
  updated, errors, deleted}}\<close> exactly when both bounds parse and the service returns for
  every window of the plan (for sales, also when no cache invalidation raises), the data
  being the counters added up over the windows; a failure of the optimization of the
  indexes, or of the synchronization of the accounts, changes nothing. In every other case
  the response is \<^verbatim>\<open>{success: false, message, data: null}\<close>: for a bound that does not
  parse, and also when the service raises for one single window.
\<close>

theorem sync_endpoints_response:
  "fst (sync_transactions env from_date to_date w) =
     (case iiko_sync_accounts env w of (accounts, w1) \<Rightarrow>
      case default_from env from_date w1 of (from_s, w2) \<Rightarrow>
      case default_to env to_date w2 of (to_s, w3) \<Rightarrow>
        (case parse_range env from_s to_s of
           Inl e \<Rightarrow> \<lparr>success = False, message = Transactions_failed e, data = None\<rparr>
         | Inr (from_dt, to_dt) \<Rightarrow>
             (case fst (run_windows (iiko_sync_transactions env) (plan from_dt to_dt) no_counts w3) of
                Inl e \<Rightarrow> \<lparr>success = False, message = Transactions_failed e, data = None\<rparr>
              | Inr result \<Rightarrow>
                  \<lparr>success = True, message = Transactions_completed, data = Some result\<rparr>)))
   \<and> fst (sync_sales env from_date to_date w) =
     (case default_from env from_date w of (from_s, w1) \<Rightarrow>
      case default_to env to_date w1 of (to_s, w2) \<Rightarrow>
        (case parse_range env from_s to_s of
           Inl e \<Rightarrow> \<lparr>success = False, message = Sales_failed e, data = None\<rparr>
         | Inr (from_dt, to_dt) \<Rightarrow>
             (case run_windows (iiko_sync_sales env) (plan from_dt to_dt) no_counts w2 of
                (Inl e, w3) \<Rightarrow> \<lparr>success = False, message = Sales_failed e, data = None\<rparr>
              | (Inr result, w3) \<Rightarrow>
                  (case fst (invalidate_all env [''reports'', ''analytics'', ''popular_dishes''] w3) of
                     Inl e \<Rightarrow> \<lparr>success = False, message = Sales_failed e, data = None\<rparr>
                   | Inr u \<Rightarrow> \<lparr>success = True, message = Sales_completed, data = Some result\<rparr>))))
   \<and> success (fst (sync_transactions env from_date to_date w)) =
       (data (fst (sync_transactions env from_date to_date w)) \<noteq> None)
   \<and> success (fst (sync_sales env from_date to_date w)) =
       (data (fst (sync_sales env from_date to_date w)) \<noteq> None)
   \<and> (parse_range env from_s to_s = Inr (from_dt, to_dt) \<longrightarrow>
        plan from_dt to_dt = before @ (day_from, day_to) # after \<longrightarrow>
        run_windows (iiko_sync_transactions env) before no_counts (snd (iiko_sync_accounts env w)) =
          (Inr partial, u) \<longrightarrow>
        iiko_sync_transactions env day_from day_to u = (Inl e, u') \<longrightarrow>
        fst (sync_transactions env (Some from_s) (Some to_s) w) =
          \<lparr>success = False, message = Transactions_failed e, data = None\<rparr>)
   \<and> (parse_range env from_s to_s = Inr (from_dt, to_dt) \<longrightarrow>
        plan from_dt to_dt = before @ (day_from, day_to) # after \<longrightarrow>
        run_windows (iiko_sync_sales env) before no_counts w = (Inr partial', v) \<longrightarrow>
        iiko_sync_sales env day_from day_to v = (Inl e', v') \<longrightarrow>
        fst (sync_sales env (Some from_s) (Some to_s) w) =
          \<lparr>success = False, message = Sales_failed e', data = None\<rparr>)"
  using sync_transactions_response [of env from_date to_date w]
    sync_sales_response [of env from_date to_date w]
    sync_transactions_shape [of env from_date to_date w]
    sync_sales_shape [of env from_date to_date w]
    sync_transactions_window_raises [of env from_s to_s from_dt to_dt before day_from day_to after w partial u e u']
    sync_sales_window_raises [of env from_s to_s from_dt to_dt before day_from day_to after w partial' v e' v']
  by (intro conjI impI) assumption+

lemma october_windows_ordinal:
  "plan (739525, 0) (739528, 0) =
     [(midnight 739525, midnight 739526)] @ (midnight 739526, midnight 739527) #
     [(midnight 739527, midnight 739528)]"
  using october_windows [of 0 0] by simp

theorem sync_endpoints_response_witness:
  "fst (sync_transactions (october_run 739526)
      (Some ''2025-10-01T00:00:00.000'') (Some ''2025-10-04T00:00:00.000'') []) =
     \<lparr>success = False, message = Transactions_failed (Failure ''fetch''), data = None\<rparr>
   \<and> fst (sync_sales (october_run 739526)
      (Some ''2025-10-01T00:00:00.000'') (Some ''2025-10-04T00:00:00.000'') []) =
     \<lparr>success = False, message = Sales_failed (Failure ''fetch''), data = None\<rparr>"
proof -
  note inst = sync_endpoints_response
    [where env = "october_run 739526" and w = "[]"
       and from_s = "''2025-10-01T00:00:00.000''" and to_s = "''2025-10-04T00:00:00.000''"
       and from_dt = "(739525, 0)" and to_dt = "(739528, 0)"
       and before = "[(midnight 739525, midnight 739526)]"
       and day_from = "midnight 739526" and day_to = "midnight 739527"
       and after = "[(midnight 739527, midnight 739528)]"
       and partial = "\<lparr>created = 1, updated = 0, errors = 0, deleted = 0\<rparr>"
       and partial' = "\<lparr>created = 1, updated = 0, errors = 0, deleted = 0\<rparr>"
       and u = "[(midnight 739525, midnight 739526)]" and v = "[(midnight 739525, midnight 739526)]"
       and e = "Failure ''fetch''" and e' = "Failure ''fetch''"
       and u' = "[(midnight 739525, midnight 739526), (midnight 739526, midnight 739527)]"
       and v' = "[(midnight 739525, midnight 739526), (midnight 739526, midnight 739527)]"]
  have first: "run_windows (failing_on 739526) [(midnight 739525, midnight 739526)] no_counts [] =
      (Inr \<lparr>created = 1, updated = 0, errors = 0, deleted = 0\<rparr>, [(midnight 739525, midnight 739526)])"
    by (simp add: failing_on_def midnight_def add_sync_result_def get0_def no_counts_def)
  have second: "failing_on 739526 (midnight 739526) (midnight 739527) [(midnight 739525, midnight 739526)] =
      (Inl (Failure ''fetch''), [(midnight 739525, midnight 739526), (midnight 739526, midnight 739527)])"
    by (simp add: failing_on_def midnight_def)
  have services: "iiko_sync_transactions (october_run 739526) = failing_on 739526"
    "iiko_sync_sales (october_run 739526) = failing_on 739526"
    "snd (iiko_sync_accounts (october_run 739526) []) = []"
    by (simp_all add: october_run_def)
  have "fst (sync_transactions (october_run 739526)
      (Some ''2025-10-01T00:00:00.000'') (Some ''2025-10-04T00:00:00.000'') []) =
     \<lparr>success = False, message = Transactions_failed (Failure ''fetch''), data = None\<rparr>"
    using inst [THEN conjunct2, THEN conjunct2, THEN conjunct2, THEN conjunct2, THEN conjunct1]
      october_range [of 739526] october_windows_ordinal first second
    by (simp only: services simp_thms)
  moreover have "fst (sync_sales (october_run 739526)
      (Some ''2025-10-01T00:00:00.000'') (Some ''2025-10-04T00:00:00.000'') []) =
     \<lparr>success = False, message = Sales_failed (Failure ''fetch''), data = None\<rparr>"
    using inst [THEN conjunct2, THEN conjunct2, THEN conjunct2, THEN conjunct2, THEN conjunct2]
      october_range [of 739526] october_windows_ordinal first second
    by (simp only: services simp_thms)
  ultimately show ?thesis by (intro conjI)
qed

text \<open>
  The claim as it is written fails on the sales of the three windows from 2025-10-01 to
  2025-10-04 when the service raises for the second window only: the failure is that of
  one window, the service returns for the first and would return for the third, and the
  response is the failure response without data.
\<close>

theorem single_window_failure_fails_the_response_counterexample:
  "fst (sync_sales (october_run (ordinal 2025 10 2))
      (Some ''2025-10-01T00:00:00.000'') (Some ''2025-10-04T00:00:00.000'') []) =
     \<lparr>success = False, message = Sales_failed (Failure ''fetch''), data = None\<rparr>
   \<and> fst (iiko_sync_sales (october_run (ordinal 2025 10 2))
          (midnight (ordinal 2025 10 1)) (midnight (ordinal 2025 10 2)) []) = Inr [(''created'', 1)]
   \<and> fst (iiko_sync_sales (october_run (ordinal 2025 10 2))
          (midnight (ordinal 2025 10 3)) (midnight (ordinal 2025 10 4)) []) = Inr [(''created'', 1)]"
proof -
  have "sync_sales (october_run 739526)
      (Some ''2025-10-01T00:00:00.000'') (Some ''2025-10-04T00:00:00.000'') [] =
     (\<lparr>success = False, message = Sales_failed (Failure ''fetch''), data = None\<rparr>,
      [(midnight 739525, midnight 739526), (midnight 739526, midnight 739527)])"
    by (simp add: sync_sales_def default_from_def default_to_def october_range)
       (simp add: october_run_def october_loop_fails)
  then show ?thesis
    by (simp add: ordinals_october october_run_def failing_on_def midnight_def)
qed

subsection \<open>Determinism of the entry points\<close>

lemma without_stamps_parsed_org:
  "without_stamps (parsed_org org created_at updated_at) =
     PDict
      [(''iiko_id'', dict_get org ''id'' PNone),
       (''name'', dict_get org ''name'' PNone),
       (''code'', dict_get org ''code'' (PStr [])),
       (''is_active'', PBool True)]"
  by (simp add: parsed_org_def)

lemma parse_organizations_loop_stamps:
  "map without_stamps parsed = map without_stamps parsed' \<Longrightarrow>
     map_sum id (map without_stamps) (fst (parse_organizations_loop orgs parsed w)) =
     map_sum id (map without_stamps) (fst (parse_organizations_loop orgs parsed' w'))"
proof (induction orgs arbitrary: parsed parsed' w w')
  case Nil
  then show ?case by simp
next
  case (Cons org orgs)
  show ?case
  proof (cases org)
    case (PDict d)
    have "map without_stamps (parsed @ [parsed_org d x y]) =
        map without_stamps (parsed' @ [parsed_org d x' y'])" for x y x' y'
      using Cons.prems by (simp add: without_stamps_parsed_org)
    from Cons.IH [OF this] PDict show ?thesis
      by (simp add: datetime_now_def)
  qed simp_all
qed

lemma parse_organizations_stamps:
  "map_sum id (map without_stamps) (fst (parse_organizations records w)) =
     map_sum id (map without_stamps) (fst (parse_organizations records w'))"
proof (cases records)
  case (PList orgs)
  have "fst (case parse_organizations_loop orgs [] v of
        (Inl e, v') \<Rightarrow> (Inl e, v')
      | (Inr parsed_orgs, v') \<Rightarrow>
          (Inr parsed_orgs, logger_info (Parsed_organizations (length parsed_orgs)) v')) =
      fst (parse_organizations_loop orgs [] v)" for v
    by (simp split: prod.splits sum.splits)
  with PList show ?thesis
    using parse_organizations_loop_stamps [of "[]" "[]" orgs w w']
    by (simp add: parse_organizations_def)
qed (simp_all add: parse_organizations_def)

lemma parse_transactions_result:
  "fst (parse_transactions parse_float records w) = fst (parse_transactions parse_float records w')"
  by (cases records) (simp_all add: parse_transactions_def split: sum.splits)

lemma parse_transactions_world:
  "snd (parse_transactions parse_float records w) = w
   \<or> (\<exists>n. snd (parse_transactions parse_float records w) = logger_info (Parsed_transactions n) w)"
  by (cases records) (auto simp add: parse_transactions_def split: sum.splits)

lemma parse_transactions_clock:
  "readings (snd (parse_transactions parse_float records w)) = readings w"
  "ticks (snd (parse_transactions parse_float records w)) = ticks w"
  using parse_transactions_world [of parse_float records w]
  by (auto simp add: logger_info_def)

lemma parse_organizations_one:
  "parse_organizations (PList [PDict d]) w =
     (Inr [parsed_org d (readings w (ticks w)) (readings w (ticks w + 1))],
      logger_info (Parsed_organizations 1) (w\<lparr>ticks := ticks w + 2\<rparr>))"
  by (simp add: parse_organizations_def datetime_now_def)

text \<open>
  Claim C8 (referential transparency of the normalizer), amended. \<^verbatim>\<open>parse_transactions\<close>
  is deterministic and reads no clock: two calls on the same raw records, in any two
  worlds, return the same, so that what it returns depends on the raw records only; the
  clock is as it was after the call, and the only effect of the call is the line that it
  writes to the log. \<^verbatim>\<open>parse_organizations\<close> reads the clock twice for every record: two
  calls on the same raw records agree on whether an exception is raised and on every
  field of every record but \<^verbatim>\<open>created_at\<close> and \<^verbatim>\<open>updated_at\<close>, which hold the readings
  of the clock.
\<close>

theorem normalize_depends_on_records_and_stamps:
  "fst (normalize Transactions parse_float records w) =
     fst (normalize Transactions parse_float records w')
   \<and> readings (snd (normalize Transactions parse_float records w)) = readings w
   \<and> ticks (snd (normalize Transactions parse_float records w)) = ticks w
   \<and> (snd (normalize Transactions parse_float records w) = w
       \<or> (\<exists>n. snd (normalize Transactions parse_float records w) =
                  logger_info (Parsed_transactions n) w))
   \<and> map_sum id (map without_stamps) (fst (normalize Organizations parse_float records w)) =
       map_sum id (map without_stamps) (fst (normalize Organizations parse_float records w'))
   \<and> normalize Organizations parse_float (PList [PDict d]) w =
       (Inr [parsed_org d (readings w (ticks w)) (readings w (ticks w + 1))],
        logger_info (Parsed_organizations 1) (w\<lparr>ticks := ticks w + 2\<rparr>))"
  using parse_transactions_result [of parse_float records w w']
    parse_transactions_clock [of parse_float records w]
    parse_transactions_world [of parse_float records w]
    parse_organizations_stamps [of records w w']
    parse_organizations_one [of d w]
  by (simp only: normalize.simps simp_thms)

lemma parsed_fields_of_empty_record:
  "parsed_fields (\<lambda>s. None) [] entries = Inr (map (\<lambda>(target, r, key). (target, PNone)) entries)"
proof (induction entries)
  case Nil
  then show ?case by simp
next
  case (Cons entry entries)
  obtain target r key where "entry = (target, r, key)" by (cases entry)
  with Cons show ?case
    by (cases r) (simp_all add: dict_get_def safe_get_def)
qed

lemma parse_transactions_of_empty_record:
  "\<exists>parsed. parse_transactions (\<lambda>s. None) (PList [PDict []]) w =
     (Inr [parsed], logger_info (Parsed_transactions 1) w)"
  by (simp add: parse_transactions_def parsed_fields_of_empty_record)

text \<open>
  The claim as it is written fails for \<^verbatim>\<open>parse_organizations\<close>: two calls on the same
  organization at two times return two different records. And no entry point is pure: a
  call of \<^verbatim>\<open>parse_transactions\<close> leaves a line in the log.
\<close>

theorem parse_organizations_reads_the_clock_counterexample:
  "fst (normalize Organizations (\<lambda>s. None) (PList [PDict [(''id'', PStr ''a'')]])
         \<lparr>readings = (\<lambda>k. PDatetime 739525 0), ticks = 0, logged = []\<rparr>) \<noteq>
   fst (normalize Organizations (\<lambda>s. None) (PList [PDict [(''id'', PStr ''a'')]])
         \<lparr>readings = (\<lambda>k. PDatetime 739526 0), ticks = 0, logged = []\<rparr>)
   \<and> snd (normalize Transactions (\<lambda>s. None) (PList [PDict []])
         \<lparr>readings = (\<lambda>k. PDatetime 739525 0), ticks = 0, logged = []\<rparr>) \<noteq>
       \<lparr>readings = (\<lambda>k. PDatetime 739525 0), ticks = 0, logged = []\<rparr>"
proof -
  obtain parsed where "parse_transactions (\<lambda>s. None) (PList [PDict []])
      \<lparr>readings = (\<lambda>k. PDatetime 739525 0), ticks = 0, logged = []\<rparr> =
     (Inr [parsed], logger_info (Parsed_transactions 1)
        \<lparr>readings = (\<lambda>k. PDatetime 739525 0), ticks = 0, logged = []\<rparr>)"
    using parse_transactions_of_empty_record by blast
  then show ?thesis
    by (simp add: parse_organizations_one parsed_org_def logger_info_def)
qed

subsection \<open>Flattening of the modifiers\<close>



























end
